theory Spec2Isabelle
  imports Complex_Main "HOL-Library.Log_Nat" "HOL-Library.Multiset"
begin

section \<open>JavaScript values used by the screens\<close>

subsection \<open>Strings\<close>

text \<open>
  Strings are lists of code units; the model covers the code units 0 to 255. The
  white space of \<^verbatim>\<open>String.prototype.trim\<close>, \<^verbatim>\<open>parseInt\<close> and \<^verbatim>\<open>parseFloat\<close> in that
  range is TAB, LF, VT, FF, CR, SPACE and NBSP.
\<close>

definition is_js_whitespace :: "char \<Rightarrow> bool" where
  "is_js_whitespace c = (of_char c \<in> {9, 10, 11, 12, 13, 32, 160 :: nat})"

definition trim :: "string \<Rightarrow> string" where
  "trim s = rev (dropWhile is_js_whitespace (rev (dropWhile is_js_whitespace s)))"

definition is_digit :: "char \<Rightarrow> bool" where
  "is_digit c = (48 \<le> (of_char c :: nat) \<and> (of_char c :: nat) \<le> 57)"

definition is_hex_digit :: "char \<Rightarrow> bool" where
  "is_hex_digit c = (is_digit c \<or> (65 \<le> (of_char c :: nat) \<and> (of_char c :: nat) \<le> 70)
      \<or> (97 \<le> (of_char c :: nat) \<and> (of_char c :: nat) \<le> 102))"

definition hex_digit_val :: "char \<Rightarrow> nat" where
  "hex_digit_val c = (let n = of_char c in
     if n \<le> 57 then n - 48 else if n \<le> 70 then n - 55 else n - 87)"

text \<open>The value of a digit string in a radix, most significant digit first.\<close>

definition digits_val :: "nat \<Rightarrow> string \<Rightarrow> nat" where
  "digits_val radix ds = foldl (\<lambda>acc c. acc * radix + hex_digit_val c) 0 ds"

definition to_lower :: "char \<Rightarrow> char" where
  "to_lower c = (if 65 \<le> (of_char c :: nat) \<and> (of_char c :: nat) \<le> 90
     then char_of (of_char c + 32 :: nat) else c)"

text \<open>Decimal text of a natural number, as a template literal prints an array length.\<close>

fun nat_digits :: "nat \<Rightarrow> nat \<Rightarrow> string" where
  "nat_digits 0 n = []"
| "nat_digits (Suc fuel) n =
     (if n < 10 then [char_of (48 + n)]
      else nat_digits fuel (n div 10) @ [char_of (48 + n mod 10)])"

definition show_nat :: "nat \<Rightarrow> string" where
  "show_nat n = nat_digits (Suc n) n"

subsection \<open>Numbers\<close>

text \<open>
  A JavaScript number is an IEEE 754 binary64 value. The finite ones are kept as the
  rational they denote (the two zeros are identified); \<open>fl\<close> rounds a rational to the
  nearest binary64 value, ties to the even significand, with gradual underflow below
  \<open>2^-1022\<close> and overflow to an infinity.
\<close>

datatype number = NaN | PosInf | NegInf | Fin rat

definition pow2 :: "int \<Rightarrow> rat" where
  "pow2 k = (if 0 \<le> k then 2 ^ nat k else 1 / 2 ^ nat (- k))"

text \<open>\<open>ilog2 x\<close> is the integer \<open>e\<close> with \<open>2^e \<le> x < 2^(e+1)\<close>, for \<open>x > 0\<close>.\<close>

definition ilog2 :: "rat \<Rightarrow> int" where
  "ilog2 x = (if 1 \<le> x then bitlen \<lfloor>x\<rfloor> - 1 else - bitlen (\<lceil>1 / x\<rceil> - 1))"

definition round_half_even :: "rat \<Rightarrow> int" where
  "round_half_even x = (let f = \<lfloor>x\<rfloor>; d = x - of_int f in
     if d < 1 / 2 then f else if 1 / 2 < d then f + 1 else if even f then f else f + 1)"

definition fl :: "rat \<Rightarrow> number" where
  "fl x = (if x = 0 then Fin 0 else
     let e = max (ilog2 \<bar>x\<bar>) (- 1022);
         q = pow2 (e - 52);
         r = of_int (round_half_even (\<bar>x\<bar> / q)) * q
     in if pow2 1024 \<le> r then (if 0 < x then PosInf else NegInf)
        else Fin (if 0 < x then r else - r))"

fun js_add :: "number \<Rightarrow> number \<Rightarrow> number" where
  "js_add (Fin a) (Fin b) = fl (a + b)"
| "js_add NaN _ = NaN"
| "js_add _ NaN = NaN"
| "js_add PosInf NegInf = NaN"
| "js_add NegInf PosInf = NaN"
| "js_add PosInf _ = PosInf"
| "js_add NegInf _ = NegInf"
| "js_add _ PosInf = PosInf"
| "js_add _ NegInf = NegInf"

definition sign_inf :: "bool \<Rightarrow> number" where
  "sign_inf positive = (if positive then PosInf else NegInf)"

fun js_mul :: "number \<Rightarrow> number \<Rightarrow> number" where
  "js_mul (Fin a) (Fin b) = fl (a * b)"
| "js_mul NaN _ = NaN"
| "js_mul _ NaN = NaN"
| "js_mul (Fin a) PosInf = (if a = 0 then NaN else sign_inf (0 < a))"
| "js_mul (Fin a) NegInf = (if a = 0 then NaN else sign_inf (a < 0))"
| "js_mul PosInf (Fin b) = (if b = 0 then NaN else sign_inf (0 < b))"
| "js_mul NegInf (Fin b) = (if b = 0 then NaN else sign_inf (b < 0))"
| "js_mul PosInf PosInf = PosInf"
| "js_mul NegInf NegInf = PosInf"
| "js_mul PosInf NegInf = NegInf"
| "js_mul NegInf PosInf = NegInf"

text \<open>Division; a zero divisor is read as the positive zero.\<close>

fun js_div :: "number \<Rightarrow> number \<Rightarrow> number" where
  "js_div (Fin a) (Fin b) =
     (if b = 0 then (if a = 0 then NaN else sign_inf (0 < a)) else fl (a / b))"
| "js_div NaN _ = NaN"
| "js_div _ NaN = NaN"
| "js_div (Fin a) PosInf = Fin 0"
| "js_div (Fin a) NegInf = Fin 0"
| "js_div PosInf (Fin b) = sign_inf (0 \<le> b)"
| "js_div NegInf (Fin b) = sign_inf (b < 0)"
| "js_div _ _ = NaN"

text \<open>\<^verbatim>\<open>Math.round\<close>: the nearest integer, a tie going up.\<close>

fun js_round :: "number \<Rightarrow> number" where
  "js_round (Fin a) = Fin (of_int \<lfloor>a + 1 / 2\<rfloor>)"
| "js_round x = x"

text \<open>
  \<^verbatim>\<open>parseFloat\<close>: leading white space is skipped and the longest prefix that is a decimal
  literal (sign, digits, fraction, exponent, or \<^verbatim>\<open>Infinity\<close>) is read; no such prefix gives
  \<^verbatim>\<open>NaN\<close>.
\<close>

definition pow10 :: "int \<Rightarrow> rat" where
  "pow10 k = (if 0 \<le> k then 10 ^ nat k else 1 / 10 ^ nat (- k))"

definition parse_sign :: "string \<Rightarrow> int \<times> string" where
  "parse_sign s = (case s of
       [] \<Rightarrow> (1, s)
     | c # r \<Rightarrow> if c = CHR ''-'' then (- 1, r) else if c = CHR ''+'' then (1, r) else (1, s))"

definition exponent_part :: "string \<Rightarrow> int" where
  "exponent_part s = (case s of
       [] \<Rightarrow> 0
     | c # r \<Rightarrow>
         if c = CHR ''e'' \<or> c = CHR ''E''
         then (case parse_sign r of (sg, r') \<Rightarrow>
                 let ds = takeWhile is_digit r'
                 in if ds = [] then 0 else sg * int (digits_val 10 ds))
         else 0)"

definition parseFloat :: "string \<Rightarrow> number" where
  "parseFloat s = (case parse_sign (dropWhile is_js_whitespace s) of (sg, t) \<Rightarrow>
     if take 8 t = ''Infinity'' then sign_inf (0 < sg) else
     let ip = takeWhile is_digit t;
         r1 = dropWhile is_digit t;
         has_dot = (r1 \<noteq> [] \<and> hd r1 = CHR ''.'');
         fp = (if has_dot then takeWhile is_digit (tl r1) else []);
         r2 = (if has_dot then dropWhile is_digit (tl r1) else r1)
     in if ip = [] \<and> fp = [] then NaN
        else fl (of_int sg * (of_nat (digits_val 10 (ip @ fp)) / 10 ^ length fp)
                 * pow10 (exponent_part r2)))"

text \<open>
  \<^verbatim>\<open>parseInt\<close> without a radix: white space, a sign, then hexadecimal digits after
  \<^verbatim>\<open>0x\<close> and decimal digits otherwise; no digit gives \<^verbatim>\<open>NaN\<close>.
\<close>

definition parseInt :: "string \<Rightarrow> number" where
  "parseInt s = (case parse_sign (dropWhile is_js_whitespace s) of (sg, t) \<Rightarrow>
     let hex = (take 2 t = ''0x'' \<or> take 2 t = ''0X'');
         ds = (if hex then takeWhile is_hex_digit (drop 2 t) else takeWhile is_digit t)
     in if ds = [] then NaN
        else fl (of_int (sg * int (digits_val (if hex then 16 else 10) ds))))"

text \<open>
  A number put into a request is printed by \<^verbatim>\<open>Number::toString\<close>: the decimal with the
  fewest significant digits that still rounds to the number (the nearest such, an even
  last digit on a tie). The store reads that decimal, so \<open>shortest_decimal\<close> is the value
  it compares with. \<open>ilog10 x\<close> is the \<open>n\<close> with \<open>10^(n-1) \<le> x < 10^n\<close>.
\<close>

definition ilog10 :: "rat \<Rightarrow> int" where
  "ilog10 x = (if 1 \<le> x then int (floorlog 10 (nat \<lfloor>x\<rfloor>))
     else 1 - int (floorlog 10 (nat (\<lceil>1 / x\<rceil> - 1))))"

function shortest_search :: "nat \<Rightarrow> rat \<Rightarrow> rat" where
  "shortest_search k x =
     (if 17 < k then x else
      let scale = pow10 (ilog10 x - int k);
          s1 = \<lfloor>x / scale\<rfloor>;
          c1 = of_int s1 * scale;
          c2 = of_int (s1 + 1) * scale;
          ok1 = (fl c1 = Fin x);
          ok2 = (fl c2 = Fin x)
      in if ok1 \<and> ok2 then
           (if x - c1 < c2 - x then c1 else if c2 - x < x - c1 then c2
            else if even s1 then c1 else c2)
         else if ok1 then c1
         else if ok2 then c2
         else shortest_search (Suc k) x)"
  by pat_completeness auto
termination
  by (relation "measure (\<lambda>(k, x). 18 - k)") auto

declare shortest_search.simps [simp del]

definition shortest_decimal :: "rat \<Rightarrow> rat" where
  "shortest_decimal x = (if x = 0 then 0 else if 0 < x then shortest_search 1 x
     else - shortest_search 1 (- x))"

subsection \<open>Dates\<close>

text \<open>
  A \<^verbatim>\<open>Date\<close> holds a time value, the milliseconds since 1970-01-01T00:00Z. Calendar
  dates are triples (year, month 1 to 12, day); \<open>days_from_civil\<close> and \<open>civil_from_days\<close>
  convert between a proleptic Gregorian date and its day number.
\<close>

type_synonym civil_date = "int \<times> int \<times> int"

definition msPerDay :: int where
  "msPerDay = 86400000"

definition days_from_civil :: "civil_date \<Rightarrow> int" where
  "days_from_civil ymd = (case ymd of (y, m, d) \<Rightarrow>
     let y' = (if m \<le> 2 then y - 1 else y);
         era = y' div 400;
         yoe = y' mod 400;
         doy = (153 * ((m + 9) mod 12) + 2) div 5 + d - 1;
         doe = yoe * 365 + yoe div 4 - yoe div 100 + doy
     in era * 146097 + doe - 719468)"

definition civil_from_days :: "int \<Rightarrow> civil_date" where
  "civil_from_days z = (
     let z' = z + 719468;
         era = z' div 146097;
         doe = z' mod 146097;
         yoe = (doe - doe div 1460 + doe div 36524 - doe div 146096) div 365;
         doy = doe - (365 * yoe + yoe div 4 - yoe div 100);
         mp = (5 * doy + 2) div 153;
         d = doy - (153 * mp + 2) div 5 + 1;
         m = (if mp < 10 then mp + 3 else mp - 9)
     in (yoe + era * 400 + (if m \<le> 2 then 1 else 0), m, d))"

text \<open>
  \<^verbatim>\<open>new Date("YYYY-MM-01")\<close>: a date-only text is read as midnight UTC; a month outside
  1 to 12 gives an invalid date (\<open>None\<close>). The selected month is kept as the pair
  (year, month) that the text \<^verbatim>\<open>YYYY-MM\<close> of the month input denotes.
\<close>

definition date_of_month_start :: "nat \<times> nat \<Rightarrow> int option" where
  "date_of_month_start ym = (case ym of (y, m) \<Rightarrow>
     if 1 \<le> m \<and> m \<le> 12 \<and> y \<le> 9999
     then Some (days_from_civil (int y, int m, 1) * msPerDay) else None)"

text \<open>
  The local-time getters shift the time value by the zone's offset (minutes east of
  UTC, taken as constant). \<^verbatim>\<open>getMonth\<close> counts from 0.
\<close>

definition LocalTime :: "int \<Rightarrow> int \<Rightarrow> int" where
  "LocalTime tz t = t + tz * 60000"

definition getFullYear :: "int \<Rightarrow> int \<Rightarrow> int" where
  "getFullYear tz t = fst (civil_from_days (LocalTime tz t div msPerDay))"

definition getMonth :: "int \<Rightarrow> int \<Rightarrow> int" where
  "getMonth tz t = fst (snd (civil_from_days (LocalTime tz t div msPerDay))) - 1"

text \<open>
  \<^verbatim>\<open>new Date(year, month, date)\<close>: local midnight of the day \<open>date\<close> of the month, where
  the month index may run over (12 is January of the next year) and day 0 is the day
  before the first; a year from 0 to 99 stands for 1900 plus that year.
\<close>

definition MakeDay :: "int \<Rightarrow> int \<Rightarrow> int \<Rightarrow> int" where
  "MakeDay y m dt = days_from_civil (y + m div 12, m mod 12 + 1, 1) + dt - 1"

definition new_Date_local :: "int \<Rightarrow> int \<Rightarrow> int \<Rightarrow> int \<Rightarrow> int" where
  "new_Date_local tz y m dt =
     MakeDay (if 0 \<le> y \<and> y \<le> 99 then 1900 + y else y) m dt * msPerDay - tz * 60000"

section \<open>The record store\<close>

text \<open>
  The two tables of the schema. A \<^verbatim>\<open>NUMERIC(12,2)\<close> column holds an exact decimal (a
  rational); dates are calendar dates; the time stamps are readings of the store's
  clock. The rows a screen receives carry the JavaScript number nearest to a decimal.
\<close>

type_synonym timestamp = nat

record 'n employee_rec =
  emp_id :: int
  first_name :: string
  last_name :: string
  ssn :: string
  email :: string
  phone :: "string option"
  hire_date :: civil_date
  job_title :: string
  division :: string
  salary :: 'n
  status :: string
  created_at :: timestamp
  updated_at :: timestamp

type_synonym employee_row = "rat employee_rec"
type_synonym Employee = "number employee_rec"

record pay_statement =
  ps_id :: int
  ps_emp_id :: int
  pay_period_start :: civil_date
  pay_period_end :: civil_date
  gross_pay :: rat
  deductions :: rat
  net_pay :: rat
  ps_created_at :: timestamp

text \<open>A row of a projection: the four columns the salary screen selects.\<close>

record salary_item =
  si_emp_id :: int
  si_first_name :: string
  si_last_name :: string
  si_salary :: number

text \<open>A row of the report query: \<^verbatim>\<open>gross_pay\<close> and the joined column of the owner.\<close>

record pay_item =
  item_gross_pay :: number
  item_key :: string

datatype store_error =
    Unavailable
  | BadRequest
  | InvalidInput
  | NumericOverflow
  | NotNullViolation

datatype key_column = JobTitleColumn | DivisionColumn

datatype employee_filter =
    NameIlike string
  | SsnEq string
  | EmpIdEq number
  | Unfiltered

datatype request =
    SelectBySalary number number
  | UpdateSalary int number
  | SelectEmployees employee_filter
  | SelectPay key_column int int

text \<open>
  The store also carries what the model needs of its surroundings: the clock reading
  the update trigger writes, the requests received so far, and a schedule telling
  for each coming request whether it fails before reaching the tables (an empty
  schedule: none fails).
\<close>

record store =
  employees :: "employee_row list"
  pay_statements :: "pay_statement list"
  clock :: timestamp
  faults :: "bool list"
  requests :: "request list"

definition next_request_fails :: "store \<Rightarrow> bool" where
  "next_request_fails s = (case faults s of [] \<Rightarrow> False | b # _ \<Rightarrow> b)"

definition begin_request :: "request \<Rightarrow> store \<Rightarrow> bool \<times> store" where
  "begin_request rq s =
     (next_request_fails s, s\<lparr>faults := tl (faults s), requests := requests s @ [rq]\<rparr>)"

definition to_client :: "employee_row \<Rightarrow> Employee" where
  "to_client r = \<lparr>emp_id = emp_id r, first_name = first_name r, last_name = last_name r,
     ssn = ssn r, email = email r, phone = phone r, hire_date = hire_date r,
     job_title = job_title r, division = division r, salary = fl (salary r),
     status = status r, created_at = created_at r, updated_at = updated_at r\<rparr>"

definition to_salary_item :: "employee_row \<Rightarrow> salary_item" where
  "to_salary_item r = \<lparr>si_emp_id = emp_id r, si_first_name = first_name r,
     si_last_name = last_name r, si_salary = fl (salary r)\<rparr>"

subsection \<open>Comparison filters on a numeric column\<close>

text \<open>
  The filter value arrives as the text of the number. A numeric column orders
  \<^verbatim>\<open>-Infinity\<close> below and \<^verbatim>\<open>Infinity\<close> above every decimal, and \<^verbatim>\<open>NaN\<close> above all of them.
\<close>

fun numeric_gte :: "rat \<Rightarrow> number \<Rightarrow> bool" where
  "numeric_gte x (Fin b) = (shortest_decimal b \<le> x)"
| "numeric_gte x NegInf = True"
| "numeric_gte x PosInf = False"
| "numeric_gte x NaN = False"

fun numeric_lt :: "rat \<Rightarrow> number \<Rightarrow> bool" where
  "numeric_lt x (Fin b) = (x < shortest_decimal b)"
| "numeric_lt x NegInf = False"
| "numeric_lt x PosInf = True"
| "numeric_lt x NaN = True"

definition in_salary_range :: "number \<Rightarrow> number \<Rightarrow> employee_row \<Rightarrow> bool" where
  "in_salary_range lo hi r = (numeric_gte (salary r) lo \<and> numeric_lt (salary r) hi)"

text \<open>
  \<^verbatim>\<open>from('employees').select('emp_id, first_name, last_name, salary').gte('salary', lo).lt('salary', hi)\<close>
\<close>

definition select_by_salary ::
  "number \<Rightarrow> number \<Rightarrow> store \<Rightarrow> (store_error + salary_item list) \<times> store" where
  "select_by_salary lo hi s = (case begin_request (SelectBySalary lo hi) s of (failed, s') \<Rightarrow>
     if failed then (Inl Unavailable, s')
     else (Inr (map to_salary_item (filter (in_salary_range lo hi) (employees s'))), s'))"

subsection \<open>Update of one salary\<close>

text \<open>
  \<^verbatim>\<open>from('employees').update({ salary: v }).eq('emp_id', id)\<close>. The body is JSON: a
  number that is not finite is written \<^verbatim>\<open>null\<close>, which the \<^verbatim>\<open>NOT NULL\<close> column refuses for
  a row it would change. A decimal is rounded to the two places of the column (half
  away from zero) and must stay below \<open>10^10\<close>. The trigger of the table sets
  \<^verbatim>\<open>updated_at\<close> of every row changed.
\<close>

definition round_scale2 :: "rat \<Rightarrow> rat" where
  "round_scale2 x = (if 0 \<le> x then of_int \<lfloor>x * 100 + 1 / 2\<rfloor> / 100
     else - (of_int \<lfloor>- x * 100 + 1 / 2\<rfloor> / 100))"

definition set_salary :: "int \<Rightarrow> rat \<Rightarrow> timestamp \<Rightarrow> employee_row \<Rightarrow> employee_row" where
  "set_salary i v t r = (if emp_id r = i then r\<lparr>salary := v, updated_at := t\<rparr> else r)"

definition update_salary :: "int \<Rightarrow> number \<Rightarrow> store \<Rightarrow> store_error option \<times> store" where
  "update_salary i v s = (case begin_request (UpdateSalary i v) s of (failed, s') \<Rightarrow>
     if failed then (Some Unavailable, s')
     else (case v of
         Fin x \<Rightarrow>
           let y = round_scale2 (shortest_decimal x)
           in if 10 ^ 10 \<le> \<bar>y\<bar> then (Some NumericOverflow, s')
              else (None, s'\<lparr>employees := map (set_salary i y (clock s')) (employees s')\<rparr>)
       | _ \<Rightarrow>
           if list_ex (\<lambda>r. emp_id r = i) (employees s') then (Some NotNullViolation, s')
           else (None, s')))"

text \<open>
  What a run of updates \<open>us\<close> (pairs of an id and a number) makes of a row: a row
  whose id has no update is left as it is, and a row whose id has one gets the number
  as its salary and the clock reading \<open>t\<close> as its time of update.
\<close>

definition updated_by :: "(int \<times> number) list \<Rightarrow> timestamp \<Rightarrow> employee_row \<Rightarrow> employee_row \<Rightarrow> bool" where
  "updated_by us t r r' = (case map_of us (emp_id r) of
       None \<Rightarrow> r' = r
     | Some v \<Rightarrow> Fin (salary r') = v \<and> r' = r\<lparr>salary := salary r', updated_at := t\<rparr>)"

subsection \<open>Search filters\<close>

text \<open>
  \<^verbatim>\<open>LIKE\<close> patterns: \<^verbatim>\<open>%\<close> stands for any text, \<^verbatim>\<open>_\<close> for any one character, and a
  backslash takes the next character literally. \<^verbatim>\<open>ILIKE\<close> matches without regard to
  case (the letters A to Z here).
\<close>

fun like_match :: "string \<Rightarrow> string \<Rightarrow> bool" where
  "like_match [] s = (s = [])"
| "like_match (p # ps) [] = (p = CHR ''%'' \<and> like_match ps [])"
| "like_match (p # ps) (c # s) =
     (if p = CHR ''%'' then like_match ps (c # s) \<or> like_match (p # ps) s
      else if p = CHR ''_'' then like_match ps s
      else if p = CHR 0x5C then (case ps of [] \<Rightarrow> False | q # qs \<Rightarrow> c = q \<and> like_match qs s)
      else c = p \<and> like_match ps s)"

definition ilike :: "string \<Rightarrow> string \<Rightarrow> bool" where
  "ilike pattern s = like_match (map to_lower pattern) (map to_lower s)"

text \<open>
  \<^verbatim>\<open>or('first_name.ilike.%T%,last_name.ilike.%T%')\<close>. In the value of such a condition
  the store reads \<^verbatim>\<open>*\<close> as \<^verbatim>\<open>%\<close>, and the value ends at the first comma or closing
  parenthesis: a term holding one of them leaves text behind that is no condition, and
  the request is refused.
\<close>

definition name_pattern :: "string \<Rightarrow> string" where
  "name_pattern t = ''%'' @ map (\<lambda>c. if c = CHR ''*'' then CHR ''%'' else c) t @ ''%''"

definition name_matches :: "string \<Rightarrow> employee_row \<Rightarrow> bool" where
  "name_matches t r = (ilike (name_pattern t) (first_name r) \<or> ilike (name_pattern t) (last_name r))"

text \<open>
  \<^verbatim>\<open>eq('emp_id', n)\<close>: the column is a 32-bit integer, and a value whose text is not
  such an integer (\<^verbatim>\<open>NaN\<close>, an infinity, a fraction, a number out of range) is refused.
\<close>

definition int4_of_number :: "number \<Rightarrow> int option" where
  "int4_of_number n = (case n of
       Fin x \<Rightarrow> if of_int \<lfloor>x\<rfloor> = x \<and> - (2 ^ 31) \<le> \<lfloor>x\<rfloor> \<and> \<lfloor>x\<rfloor> < 2 ^ 31 then Some \<lfloor>x\<rfloor> else None
     | _ \<Rightarrow> None)"

definition apply_filter :: "employee_filter \<Rightarrow> employee_row list \<Rightarrow> store_error + employee_row list" where
  "apply_filter f rows = (case f of
       NameIlike t \<Rightarrow>
         if CHR '','' \<in> set t \<or> CHR '')'' \<in> set t then Inl BadRequest
         else Inr (filter (name_matches t) rows)
     | SsnEq t \<Rightarrow> Inr (filter (\<lambda>r. ssn r = t) rows)
     | EmpIdEq n \<Rightarrow>
         (case int4_of_number n of
            None \<Rightarrow> Inl InvalidInput
          | Some i \<Rightarrow> Inr (filter (\<lambda>r. emp_id r = i) rows))
     | Unfiltered \<Rightarrow> Inr rows)"

text \<open>\<^verbatim>\<open>from('employees').select('*')\<close> with the filter of the search.\<close>

definition select_employees ::
  "employee_filter \<Rightarrow> store \<Rightarrow> (store_error + Employee list) \<times> store" where
  "select_employees f s = (case begin_request (SelectEmployees f) s of (failed, s') \<Rightarrow>
     if failed then (Inl Unavailable, s')
     else (case apply_filter f (employees s') of
         Inl e \<Rightarrow> (Inl e, s')
       | Inr rows \<Rightarrow> (Inr (map to_client rows), s')))"

subsection \<open>The report query\<close>

text \<open>
  \<^verbatim>\<open>from('pay_statements').select('gross_pay, employees!inner(col)').gte('pay_period_start', a).lte('pay_period_end', b)\<close>
  where \<open>a\<close> and \<open>b\<close> are the ISO texts of two time values. The date columns are compared
  with the calendar date of the text (its time of day is dropped); a year outside 1 to
  9999 is no date of the store. The inner join keeps a statement with the column of
  its owner.
\<close>

definition date_of_time_value :: "int \<Rightarrow> civil_date option" where
  "date_of_time_value t = (let d = civil_from_days (t div msPerDay)
     in if 1 \<le> fst d \<and> fst d \<le> 9999 then Some d else None)"

definition in_period :: "civil_date \<Rightarrow> civil_date \<Rightarrow> pay_statement \<Rightarrow> bool" where
  "in_period a b p = (days_from_civil a \<le> days_from_civil (pay_period_start p)
     \<and> days_from_civil (pay_period_end p) \<le> days_from_civil b)"

definition column_of :: "key_column \<Rightarrow> employee_row \<Rightarrow> string" where
  "column_of col r = (case col of JobTitleColumn \<Rightarrow> job_title r | DivisionColumn \<Rightarrow> division r)"

definition join_owner :: "key_column \<Rightarrow> employee_row list \<Rightarrow> pay_statement \<Rightarrow> pay_item list" where
  "join_owner col rows p = (case find (\<lambda>r. emp_id r = ps_emp_id p) rows of
       None \<Rightarrow> []
     | Some r \<Rightarrow> [\<lparr>item_gross_pay = fl (gross_pay p), item_key = column_of col r\<rparr>])"

definition select_pay ::
  "key_column \<Rightarrow> int \<Rightarrow> int \<Rightarrow> store \<Rightarrow> (store_error + pay_item list) \<times> store" where
  "select_pay col t1 t2 s = (case begin_request (SelectPay col t1 t2) s of (failed, s') \<Rightarrow>
     if failed then (Inl Unavailable, s')
     else (case (date_of_time_value t1, date_of_time_value t2) of
         (Some a, Some b) \<Rightarrow>
           (Inr (concat (map (join_owner col (employees s'))
                   (filter (in_period a b) (pay_statements s')))), s')
       | _ \<Rightarrow> (Inl InvalidInput, s')))"

section \<open>The screens\<close>

text \<open>
  A handler runs from the user's action to the end of its \<^verbatim>\<open>finally\<close> block; the model
  gives the component state and the surroundings (the store, the console, the time
  zone of the browser in minutes east of UTC) after it. What \<^verbatim>\<open>console.error\<close> prints is
  kept as the label with the value thrown.
\<close>

datatype failure = StoreFailure store_error | RangeError

record world =
  db :: store
  console :: "(string \<times> failure) list"
  tz :: int

subsection \<open>EmployeeSearch\<close>

record search_state =
  searchTerm :: string
  searchType :: string
  results :: "Employee list"
  loading :: bool

definition search_filter :: "string \<Rightarrow> string \<Rightarrow> employee_filter" where
  "search_filter ty t =
     (if ty = ''name'' then NameIlike t
      else if ty = ''ssn'' then SsnEq t
      else if ty = ''empid'' then EmpIdEq (parseInt t)
      else Unfiltered)"

definition handleSearch :: "search_state \<Rightarrow> world \<Rightarrow> search_state \<times> world" where
  "handleSearch st w =
     (if trim (searchTerm st) = [] then (st, w)
      else (case select_employees (search_filter (searchType st) (searchTerm st)) (db w) of
          (Inr data, s') \<Rightarrow> (st\<lparr>results := data, loading := False\<rparr>, w\<lparr>db := s'\<rparr>)
        | (Inl e, s') \<Rightarrow>
            (st\<lparr>loading := False\<rparr>,
             w\<lparr>db := s', console := console w @ [(''Error searching employees:'', StoreFailure e)]\<rparr>)))"

subsection \<open>SalaryAdjustments\<close>

record adjustment_result =
  affected :: nat
  message :: string

record adjustments_state =
  percentage :: string
  minSalary :: string
  maxSalary :: string
  adj_loading :: bool
  result :: "adjustment_result option"

text \<open>\<^verbatim>\<open>Math.round(emp.salary * (1 + percentageIncrease))\<close>\<close>

definition adjusted_salary :: "number \<Rightarrow> number \<Rightarrow> number" where
  "adjusted_salary percentageIncrease sal = js_round (js_mul sal (js_add (Fin 1) percentageIncrease))"

text \<open>The loop over the updates: one request each, in order, stopping at the first error.\<close>

fun run_updates :: "(int \<times> number) list \<Rightarrow> store \<Rightarrow> store_error option \<times> store" where
  "run_updates [] s = (None, s)"
| "run_updates (u # us) s =
     (case update_salary (fst u) (snd u) s of
        (Some e, s') \<Rightarrow> (Some e, s')
      | (None, s') \<Rightarrow> run_updates us s')"

definition salary_error :: "store_error \<Rightarrow> adjustments_state \<Rightarrow> world \<Rightarrow> store
    \<Rightarrow> adjustments_state \<times> world" where
  "salary_error e st w s' =
     (st\<lparr>adj_loading := False,
         result := Some \<lparr>affected = 0, message = ''Error updating salaries. Please try again.''\<rparr>\<rparr>,
      w\<lparr>db := s', console := console w @ [(''Error updating salaries:'', StoreFailure e)]\<rparr>)"

definition handleSubmit :: "adjustments_state \<Rightarrow> world \<Rightarrow> adjustments_state \<times> world" where
  "handleSubmit st w =
     (let percentageIncrease = js_div (parseFloat (percentage st)) (Fin 100);
          minSal = parseFloat (minSalary st);
          maxSal = parseFloat (maxSalary st)
      in case select_by_salary minSal maxSal (db w) of
          (Inl e, s1) \<Rightarrow> salary_error e st w s1
        | (Inr emps, s1) \<Rightarrow>
            if emps = [] then
              (st\<lparr>adj_loading := False,
                  result := Some \<lparr>affected = 0,
                    message = ''No employees found in the specified salary range.''\<rparr>\<rparr>,
               w\<lparr>db := s1\<rparr>)
            else
              (case run_updates
                      (map (\<lambda>emp. (si_emp_id emp, adjusted_salary percentageIncrease (si_salary emp))) emps)
                      s1 of
                 (Some e, s2) \<Rightarrow> salary_error e st w s2
               | (None, s2) \<Rightarrow>
                   (st\<lparr>percentage := [], minSalary := [], maxSalary := [], adj_loading := False,
                       result := Some \<lparr>affected = length emps,
                         message = ''Successfully updated '' @ show_nat (length emps)
                           @ '' employee(s) with a '' @ percentage st @ ''% salary increase.''\<rparr>\<rparr>,
                    w\<lparr>db := s2\<rparr>)))"

subsection \<open>Reports\<close>

text \<open>
  One record serves \<^verbatim>\<open>PayByJobTitle\<close> and \<^verbatim>\<open>PayByDivision\<close>, which differ in the name of
  the first field only.
\<close>

record pay_group =
  group_key :: string
  total_pay :: number
  employee_count :: nat

record reports_state =
  activeReport :: string
  payByJobTitle :: "pay_group list"
  payByDivision :: "pay_group list"
  selectedMonth :: "nat \<times> nat"
  rep_loading :: bool

text \<open>
  The accumulator of the reduction is a plain object: its own properties in the
  order of their creation, on top of what every object inherits. Reading \<^verbatim>\<open>acc[title]\<close>
  finds an own property first and an inherited one otherwise; each inherited one is a
  function or an object, hence truthy, so for a title that names one no own property
  is created and the two additions change the inherited value, not \<open>acc\<close>.
\<close>

definition object_prototype_keys :: "string list" where
  "object_prototype_keys = [''constructor'', ''__proto__'', ''hasOwnProperty'', ''isPrototypeOf'',
     ''propertyIsEnumerable'', ''toLocaleString'', ''toString'', ''valueOf'',
     ''__defineGetter__'', ''__defineSetter__'', ''__lookupGetter__'', ''__lookupSetter__'']"

type_synonym accumulator = "(string \<times> number \<times> nat) list"

definition add_to_entry :: "string \<Rightarrow> number \<Rightarrow> string \<times> number \<times> nat \<Rightarrow> string \<times> number \<times> nat" where
  "add_to_entry title g e = (case e of (k, tot, n) \<Rightarrow>
     if k = title then (k, js_add tot g, n + 1) else e)"

definition reduce_step :: "accumulator \<Rightarrow> pay_item \<Rightarrow> accumulator" where
  "reduce_step acc item = (let title = item_key item in
     case map_of acc title of
       Some _ \<Rightarrow> map (add_to_entry title (item_gross_pay item)) acc
     | None \<Rightarrow>
         if title \<in> set object_prototype_keys then acc
         else acc @ [(title, js_add (Fin 0) (item_gross_pay item), 1)])"

definition grouped :: "pay_item list \<Rightarrow> accumulator" where
  "grouped data = foldl reduce_step [] data"

text \<open>
  \<^verbatim>\<open>Object.entries\<close> lists the own properties whose name is an array index (a decimal
  numeral below \<open>2^32 - 1\<close> without leading zero) first, in ascending order, and the
  others after them in the order of their creation.
\<close>

definition is_array_index :: "string \<Rightarrow> bool" where
  "is_array_index k = (k \<noteq> [] \<and> list_all is_digit k \<and> (k = ''0'' \<or> hd k \<noteq> CHR ''0'')
     \<and> digits_val 10 k < 4294967295)"

definition entries :: "accumulator \<Rightarrow> accumulator" where
  "entries acc = sort_key (\<lambda>e. digits_val 10 (fst e)) (filter (\<lambda>e. is_array_index (fst e)) acc)
     @ filter (\<lambda>e. \<not> is_array_index (fst e)) acc"

definition to_group :: "string \<times> number \<times> nat \<Rightarrow> pay_group" where
  "to_group e = (case e of (k, tot, n) \<Rightarrow>
     \<lparr>group_key = k, total_pay = tot, employee_count = n\<rparr>)"

definition aggregate :: "pay_item list \<Rightarrow> pay_group list" where
  "aggregate data = map to_group (entries (grouped data))"

text \<open>
  The month filter: \<^verbatim>\<open>startDate\<close> is the first of the month at midnight UTC, \<^verbatim>\<open>endDate\<close>
  is built from the local year and month of \<^verbatim>\<open>startDate\<close>. An invalid \<^verbatim>\<open>startDate\<close> makes
  \<^verbatim>\<open>toISOString\<close> throw before any request is sent.
\<close>

definition month_bounds :: "int \<Rightarrow> nat \<times> nat \<Rightarrow> (int \<times> int) option" where
  "month_bounds z ym = (case date_of_month_start ym of
       None \<Rightarrow> None
     | Some startDate \<Rightarrow>
         Some (startDate, new_Date_local z (getFullYear z startDate) (getMonth z startDate + 1) 0))"

definition fetch_pay :: "key_column \<Rightarrow> string \<Rightarrow> nat \<times> nat \<Rightarrow> world \<Rightarrow> pay_group list option \<times> world" where
  "fetch_pay col label ym w = (case month_bounds (tz w) ym of
       None \<Rightarrow> (None, w\<lparr>console := console w @ [(label, RangeError)]\<rparr>)
     | Some (startDate, endDate) \<Rightarrow>
         (case select_pay col startDate endDate (db w) of
            (Inl e, s') \<Rightarrow> (None, w\<lparr>db := s', console := console w @ [(label, StoreFailure e)]\<rparr>)
          | (Inr data, s') \<Rightarrow> (Some (aggregate data), w\<lparr>db := s'\<rparr>)))"

definition fetchPayByJobTitle :: "reports_state \<Rightarrow> world \<Rightarrow> reports_state \<times> world" where
  "fetchPayByJobTitle st w =
     (case fetch_pay JobTitleColumn ''Error fetching pay by job title:'' (selectedMonth st) w of
        (Some groups, w') \<Rightarrow> (st\<lparr>payByJobTitle := groups, rep_loading := False\<rparr>, w')
      | (None, w') \<Rightarrow> (st\<lparr>rep_loading := False\<rparr>, w'))"


text \<open>
  The average of a table row: \<^verbatim>\<open>Math.round(item.total_pay / item.employee_count)\<close>. The
  count is kept as a natural number: it grows by 1 for each row of an array, which is
  exact in JavaScript numbers far beyond the length an array can have.
\<close>

definition average_pay :: "pay_group \<Rightarrow> number" where
  "average_pay g = js_round (js_div (total_pay g) (Fin (of_nat (employee_count g))))"

subsection \<open>The raise, in the words of the specification\<close>

text \<open>
  \<open>round(salary * (1 + p / 100))\<close> for a percentage \<open>p\<close>, in exact arithmetic: the
  product rounded to the nearest whole unit, a tie going up as \<^verbatim>\<open>Math.round\<close> takes it.
\<close>

definition rounded_raise :: "rat \<Rightarrow> rat \<Rightarrow> int" where
  "rounded_raise p old = \<lfloor>old * (1 + p / 100) + 1 / 2\<rfloor>"

subsection \<open>The totals of a report, in the words of the specification\<close>

text \<open>
  The sum of a list of numbers, taken exactly (when all are finite) and as a running
  sum in JavaScript numbers.
\<close>

fun exact_sum :: "number list \<Rightarrow> rat option" where
  "exact_sum [] = Some 0"
| "exact_sum (Fin x # ns) = (case exact_sum ns of None \<Rightarrow> None | Some y \<Rightarrow> Some (x + y))"
| "exact_sum (_ # ns) = None"

definition js_sum :: "number list \<Rightarrow> number" where
  "js_sum ns = foldl js_add (Fin 0) ns"

definition totals_conserved :: "pay_item list \<Rightarrow> bool" where
  "totals_conserved data =
     (exact_sum (map total_pay (aggregate data)) = exact_sum (map item_gross_pay data))"

definition counts_conserved :: "pay_item list \<Rightarrow> bool" where
  "counts_conserved data = (sum_list (map employee_count (aggregate data)) = length data)"

text \<open>The rows of a group, and amounts that are whole numbers with a total below \<open>2^53\<close>.\<close>

definition rows_of :: "string \<Rightarrow> pay_item list \<Rightarrow> pay_item list" where
  "rows_of k data = filter (\<lambda>i. item_key i = k) data"

definition whole_amounts :: "pay_item list \<Rightarrow> nat list \<Rightarrow> bool" where
  "whole_amounts data ns =
     (map item_gross_pay data = map (\<lambda>n. Fin (of_nat n)) ns \<and> sum_list ns < 2 ^ 53)"

subsection \<open>The name search, in the words of the specification\<close>

text \<open>
  \<open>string_includes s t\<close>: the text \<open>t\<close> occurs in \<open>s\<close>, as \<^verbatim>\<open>String.prototype.includes\<close> tells. An
  employee's name contains a term when the first or the last name does, letters
  compared without regard to case.
\<close>

fun string_includes :: "string \<Rightarrow> string \<Rightarrow> bool" where
  "string_includes [] t = (t = [])"
| "string_includes (c # s) t = (take (length t) (c # s) = t \<or> string_includes s t)"

definition name_contains :: "string \<Rightarrow> employee_row \<Rightarrow> bool" where
  "name_contains t r = (string_includes (map to_lower (first_name r)) (map to_lower t)
     \<or> string_includes (map to_lower (last_name r)) (map to_lower t))"

text \<open>
  A term is plain when none of its characters is special in a \<^verbatim>\<open>LIKE\<close> pattern.
\<close>

definition plain :: "string \<Rightarrow> bool" where
  "plain t = (\<forall>c \<in> set t. c \<noteq> CHR ''%'' \<and> c \<noteq> CHR ''_'' \<and> c \<noteq> CHR 0x5C)"

subsection \<open>Notions used to state what the reduction computes\<close>

text \<open>
  The entry a key has after the rows \<open>data\<close>, the keys that get an entry in the order
  of their first row, and the whole-number amount of a row.
\<close>

definition entry_of :: "pay_item list \<Rightarrow> string \<Rightarrow> string \<times> number \<times> nat" where
  "entry_of data k = (k, js_sum (map item_gross_pay (rows_of k data)), length (rows_of k data))"

definition first_keys :: "pay_item list \<Rightarrow> string list" where
  "first_keys data =
     rev (remdups (rev (filter (\<lambda>k. k \<notin> set object_prototype_keys) (map item_key data))))"

definition amount_of :: "pay_item \<Rightarrow> nat" where
  "amount_of i = (case item_gross_pay i of Fin x \<Rightarrow> nat \<lfloor>x\<rfloor> | _ \<Rightarrow> 0)"

section \<open>Sample data of the schema\<close>

text \<open>
  The rows the migration inserts (the first three employees and their statements of
  January 2024), and the employees of the salary scenario.
\<close>

definition employee_row ::
  "int \<Rightarrow> string \<Rightarrow> string \<Rightarrow> string \<Rightarrow> string \<Rightarrow> string \<Rightarrow> civil_date \<Rightarrow> string \<Rightarrow> string \<Rightarrow> rat
     \<Rightarrow> employee_row" where
  "employee_row i fname lname sn em ph hired jt dv sal =
     \<lparr>emp_id = i, first_name = fname, last_name = lname, ssn = sn, email = em, phone = Some ph,
      hire_date = hired, job_title = jt, division = dv, salary = sal, status = ''active'',
      created_at = 0, updated_at = 0\<rparr>"

definition john :: employee_row where
  "john = employee_row 1 ''John'' ''Smith'' ''123456789'' ''john.smith@company2.com'' ''555-0101''
     (2022, 1, 15) ''Software Engineer'' ''Engineering'' 75000"

definition sarah :: employee_row where
  "sarah = employee_row 2 ''Sarah'' ''Johnson'' ''234567890'' ''sarah.johnson@company2.com'' ''555-0102''
     (2021, 6, 20) ''Marketing Manager'' ''Marketing'' 68000"

definition michael :: employee_row where
  "michael = employee_row 3 ''Michael'' ''Brown'' ''345678901'' ''michael.brown@company2.com'' ''555-0103''
     (2023, 3, 10) ''Sales Representative'' ''Sales'' 52000"

definition statement :: "int \<Rightarrow> int \<Rightarrow> civil_date \<Rightarrow> civil_date \<Rightarrow> rat \<Rightarrow> rat \<Rightarrow> rat \<Rightarrow> pay_statement" where
  "statement i e a b g d n = \<lparr>ps_id = i, ps_emp_id = e, pay_period_start = a, pay_period_end = b,
     gross_pay = g, deductions = d, net_pay = n, ps_created_at = 0\<rparr>"

definition january_first_half :: pay_statement where
  "january_first_half = statement 1 1 (2024, 1, 1) (2024, 1, 15) (288462 / 100) (57692 / 100) (230770 / 100)"

definition january_second_half :: pay_statement where
  "january_second_half = statement 2 1 (2024, 1, 16) (2024, 1, 31) (288462 / 100) (57692 / 100) (230770 / 100)"

definition store_of :: "employee_row list \<Rightarrow> pay_statement list \<Rightarrow> store" where
  "store_of es ps = \<lparr>employees = es, pay_statements = ps, clock = 1, faults = [], requests = []\<rparr>"

definition seed_store :: store where
  "seed_store = store_of [john, sarah, michael] [january_first_half, january_second_half]"

definition world_of :: "store \<Rightarrow> int \<Rightarrow> world" where
  "world_of s z = \<lparr>db = s, console = [], tz = z\<rparr>"

text \<open>
  The salary scenario: the form as its example fills it (3.2 percent for salaries from
  58000 to below 105000) and three employees with the salaries 58000, 104999 and 105000.
\<close>

definition scenario_form :: adjustments_state where
  "scenario_form = \<lparr>percentage = ''3.2'', minSalary = ''58000'', maxSalary = ''105000'',
     adj_loading = False, result = None\<rparr>"

definition raise_form :: adjustments_state where
  "raise_form = \<lparr>percentage = ''15'', minSalary = ''52000'', maxSalary = ''75000'',
     adj_loading = False, result = None\<rparr>"

definition scenario_store :: store where
  "scenario_store = store_of
     [john\<lparr>salary := 58000\<rparr>, sarah\<lparr>salary := 104999\<rparr>, michael\<lparr>salary := 105000\<rparr>] []"

text \<open>
  A raise of half a percent for salaries from 0 to below 1000, and three employees
  with the salaries 100, 300 and 500.
\<close>

definition half_percent_form :: adjustments_state where
  "half_percent_form = \<lparr>percentage = ''0.5'', minSalary = ''0'', maxSalary = ''1000'',
     adj_loading = False, result = None\<rparr>"

definition half_percent_store :: store where
  "half_percent_store = store_of
     [john\<lparr>salary := 100\<rparr>, sarah\<lparr>salary := 300\<rparr>, michael\<lparr>salary := 500\<rparr>] []"



definition id_search :: search_state where
  "id_search = \<lparr>searchTerm = ''abc'', searchType = ''empid'', results = [to_client john],
     loading = False\<rparr>"

definition wildcard_search :: search_state where
  "wildcard_search = \<lparr>searchTerm = ''_'', searchType = ''name'', results = [], loading = False\<rparr>"

definition january_report :: reports_state where
  "january_report = \<lparr>activeReport = ''pay-by-title'', payByJobTitle = [], payByDivision = [],
     selectedMonth = (2024, 1), rep_loading = False\<rparr>"

text \<open>
  Rows of the report query: three statements of the sample data by division, three
  rows with whole amounts, and a row whose job title is \<^verbatim>\<open>constructor\<close>.
\<close>

definition division_rows :: "pay_item list" where
  "division_rows =
     [\<lparr>item_gross_pay = fl (288462 / 100), item_key = ''Engineering''\<rparr>,
      \<lparr>item_gross_pay = fl (261538 / 100), item_key = ''Marketing''\<rparr>,
      \<lparr>item_gross_pay = fl (365385 / 100), item_key = ''Engineering''\<rparr>]"

definition whole_rows :: "pay_item list" where
  "whole_rows =
     [\<lparr>item_gross_pay = fl 2000, item_key = ''Sales''\<rparr>,
      \<lparr>item_gross_pay = fl 3000, item_key = ''Engineering''\<rparr>,
      \<lparr>item_gross_pay = fl 2000, item_key = ''Sales''\<rparr>]"

definition inherited_key_rows :: "pay_item list" where
  "inherited_key_rows = [\<lparr>item_gross_pay = fl 2000, item_key = ''constructor''\<rparr>]"

section \<open>Properties\<close>

subsection \<open>Rules for evaluating numbers\<close>

lemma floor_rat_numeral_div: "\<lfloor>(numeral a :: rat) / numeral b\<rfloor> = numeral a div numeral b"
  using floor_divide_of_int_eq [of "numeral a" "numeral b", where ?'a = rat] by simp

lemma ceiling_rat_numeral_div: "\<lceil>(numeral a :: rat) / numeral b\<rceil> = - (- numeral a div numeral b)"
  using floor_divide_of_int_eq [of "- numeral a" "numeral b", where ?'a = rat]
  by (simp add: ceiling_def)

lemma bitlen_numeral: "bitlen (numeral n) = bitlen (numeral n div 2) + 1"
  by (subst compute_bitlen) simp

lemma bitlen_one: "bitlen 1 = 1"
  by (subst compute_bitlen) simp

lemma floorlog_numeral:
  "floorlog (numeral b) (numeral n) =
     (if 1 < (numeral b :: nat) then floorlog (numeral b) (numeral n div numeral b) + 1 else 0)"
  by (subst compute_floorlog) simp

lemma floorlog_one: "floorlog (numeral b) 1 = (if 1 < (numeral b :: nat) then 1 else 0)"
  by (subst compute_floorlog) (simp add: floorlog_def)

lemma floorlog_zero: "floorlog b 0 = 0"
  by (simp add: floorlog_def)

lemmas fl_eval = fl_def ilog2_def pow2_def round_half_even_def Let_def bitlen_numeral bitlen_one
  floor_rat_numeral_div ceiling_rat_numeral_div

lemmas shortest_eval = shortest_decimal_def shortest_search.simps ilog10_def pow10_def floorlog_numeral floorlog_one
  floorlog_zero

lemmas parse_eval = parseFloat_def parseInt_def parse_sign_def is_js_whitespace_def is_digit_def
  is_hex_digit_def digits_val_def hex_digit_val_def exponent_part_def pow10_def

subsection \<open>The search screen\<close>

lemma dropWhile_all: "list_all P s \<Longrightarrow> dropWhile P s = []"
  by (induction s) auto

lemma trim_blank: "list_all is_js_whitespace s \<Longrightarrow> trim s = []"
  by (simp add: trim_def dropWhile_all)

text \<open>
  C10. If the search term is empty or holds white space only, submitting the search
  form sends no request to the store and leaves the result list, the loading flag and
  all other state of the screen (and the console) as they were.
\<close>

theorem handleSearch_blank_term:
  assumes "list_all is_js_whitespace (searchTerm st)"
  shows "handleSearch st w = (st, w)"
  using assms by (simp add: handleSearch_def trim_blank)

theorem handleSearch_blank_term_witness:
  "list_all is_js_whitespace '' '' \<and>
   handleSearch \<lparr>searchTerm = '' '', searchType = ''name'', results = [to_client john], loading = False\<rparr>
       (world_of seed_store 0)
     = (\<lparr>searchTerm = '' '', searchType = ''name'', results = [to_client john], loading = False\<rparr>,
        world_of seed_store 0)"
  using handleSearch_blank_term
    [of "\<lparr>searchTerm = '' '', searchType = ''name'', results = [to_client john], loading = False\<rparr>"
        "world_of seed_store 0"]
  by (simp add: is_js_whitespace_def)

subsection \<open>Rounding is exact on integers\<close>

lemma pow2_neg: "0 \<le> j \<Longrightarrow> pow2 (- j) = 1 / 2 ^ nat j"
  by (cases "j = 0") (simp_all add: pow2_def)

lemma round_half_even_of_int: "round_half_even (of_int j) = j"
  by (simp add: round_half_even_def)

lemma ilog2_of_int: "0 < m \<Longrightarrow> ilog2 (of_int m) = bitlen m - 1"
  by (simp add: ilog2_def)

lemma fl_of_pos_int:
  assumes "0 < m" "m < 2 ^ 53"
  shows "fl (of_int m) = Fin (of_int m)"
proof -
  define e where "e = bitlen m - 1"
  have b1: "1 \<le> bitlen m"
    using assms(1) bitlen_eq_zero_iff [of m] bitlen_nonneg [of m] by linarith
  have b2: "bitlen m \<le> 53"
    using assms(2) by (simp add: bitlen_le_iff_power)
  have e: "0 \<le> e" "e \<le> 52"
    using b1 b2 by (simp_all add: e_def)
  have q: "pow2 (e - 52) = 1 / 2 ^ nat (52 - e)"
    using pow2_neg [of "52 - e"] e by simp
  have scaled: "(of_int m :: rat) / (1 / 2 ^ nat (52 - e)) = of_int (m * 2 ^ nat (52 - e))"
    by simp
  have small: "\<not> pow2 1024 \<le> (of_int m :: rat)"
  proof -
    have "(of_int m :: rat) < of_int (2 ^ 53)"
      using assms(2) by (simp only: of_int_less_iff)
    also have "\<dots> \<le> pow2 1024"
      by (simp add: pow2_def)
    finally show ?thesis by simp
  qed
  have pos: "(0::rat) < of_int m" "\<bar>(of_int m :: rat)\<bar> = of_int m"
    using assms(1) by simp_all
  have il: "ilog2 (of_int m :: rat) = e"
    using assms(1) by (simp add: ilog2_of_int e_def)
  have mx: "max e (- 1022) = e"
    using e by simp
  have r: "of_int (round_half_even ((of_int m :: rat) / pow2 (e - 52))) * pow2 (e - 52) = (of_int m :: rat)"
    unfolding q scaled round_half_even_of_int by simp
  show ?thesis
    unfolding fl_def Let_def pos(2) il mx r using pos(1) small by simp
qed

lemma fl_zero: "fl 0 = Fin 0"
  by (simp add: fl_def)

lemma fl_of_nonneg_int: "0 \<le> m \<Longrightarrow> m < 2 ^ 53 \<Longrightarrow> fl (of_int m) = Fin (of_int m)"
  using fl_of_pos_int [of m] by (cases "m = 0") (simp_all add: fl_zero)

lemma fl_uminus_of_pos_int:
  assumes "0 < m" "m < 2 ^ 53"
  shows "fl (- of_int m) = Fin (- of_int m)"
proof -
  have a: "\<bar>- (of_int m :: rat)\<bar> = of_int m" "\<not> (0::rat) < - of_int m" "- (of_int m :: rat) \<noteq> 0"
    using assms(1) by simp_all
  have "fl (of_int m) = Fin (of_int m)"
    by (rule fl_of_pos_int [OF assms])
  then show ?thesis
    using assms(1) unfolding fl_def Let_def a
    by (simp split: if_splits)
qed

lemma fl_of_int:
  assumes "\<bar>n\<bar> < 2 ^ 53"
  shows "fl (of_int n) = Fin (of_int n)"
proof (cases "0 \<le> n")
  case True
  then show ?thesis using assms by (simp add: fl_of_nonneg_int)
next
  case False
  then have "0 < - n" "- n < 2 ^ 53" using assms by simp_all
  then have "fl (- of_int (- n)) = Fin (- of_int (- n))"
    by (rule fl_uminus_of_pos_int)
  then show ?thesis by simp
qed

lemma pow10_nonneg: "0 \<le> j \<Longrightarrow> pow10 j = of_int (10 ^ nat j)"
  by (simp add: pow10_def)

lemma pow10_neg: "j < 0 \<Longrightarrow> pow10 j = 1 / of_int (10 ^ nat (- j))"
  by (simp add: pow10_def)

lemma ilog10_of_int_lower:
  assumes "0 < n" "1 \<le> k" "0 \<le> ilog10 (of_int n) - int k"
  shows "10 ^ nat (ilog10 (of_int n) - int k) \<le> n"
proof -
  have il: "ilog10 (of_int n) = int (floorlog 10 (nat n))"
    using assms(1) by (simp add: ilog10_def)
  have "(10::nat) ^ (floorlog 10 (nat n) - 1) \<le> nat n"
    using floorlog_bounds [of "nat n" 10] assms(1) by simp
  moreover have "nat (ilog10 (of_int n) - int k) \<le> floorlog 10 (nat n) - 1"
    using assms(2) by (simp add: il)
  ultimately have "(10::nat) ^ nat (ilog10 (of_int n) - int k) \<le> nat n"
    by (meson le_trans one_le_numeral power_increasing)
  then have "int (10 ^ nat (ilog10 (of_int n) - int k)) \<le> int (nat n)"
    by (simp only: of_nat_le_iff)
  then show ?thesis using assms(1) by simp
qed

lemma shortest_choice:
  assumes "fl c1 = Fin x \<Longrightarrow> c1 = x" "fl c2 = Fin x \<Longrightarrow> fl c1 = Fin x" "c1 < c2" "rest = x"
  shows "(if fl c1 = Fin x \<and> fl c2 = Fin x then
           (if x - c1 < c2 - x then c1 else if c2 - x < x - c1 then c2
            else if even s1 then c1 else c2)
         else if fl c1 = Fin x then c1
         else if fl c2 = Fin x then c2
         else rest) = x"
  using assms by auto

lemma shortest_search_of_int:
  assumes n: "0 < n" "n < 2 ^ 52" and k: "1 \<le> k"
  shows "shortest_search k (of_int n) = of_int n"
  using k
proof (induction "18 - k" arbitrary: k)
  case 0
  then have "17 < k" by simp
  then show ?case by (subst shortest_search.simps) simp
next
  case (Suc d)
  then have k17: "\<not> 17 < k" and k1: "1 \<le> k" by simp_all
  have IH: "shortest_search (Suc k) (of_int n) = of_int n"
    using Suc(1) [of "Suc k"] Suc(2) by simp
  define j where "j = ilog10 (of_int n) - int k"
  define x :: rat where "x = of_int n"
  define c1 where "c1 = of_int \<lfloor>x / pow10 j\<rfloor> * pow10 j"
  define c2 where "c2 = of_int (\<lfloor>x / pow10 j\<rfloor> + 1) * pow10 j"
  have flx: "fl x = Fin x"
    using n by (simp add: x_def fl_of_int)
  have scale_pos: "0 < pow10 j"
    by (simp add: pow10_def)
  have lt: "c1 < c2"
    using scale_pos by (simp add: c1_def c2_def algebra_simps)
  have AB: "(fl c1 = Fin x \<longrightarrow> c1 = x) \<and> (fl c2 = Fin x \<longrightarrow> fl c1 = Fin x)"
  proof (cases "0 \<le> j")
    case True
    define S :: int where "S = 10 ^ nat j"
      have S: "pow10 j = of_int S" "0 < S"
        using True by (simp_all add: pow10_nonneg S_def)
      have Sn: "S \<le> n"
        using ilog10_of_int_lower [OF n(1) k1] True by (simp add: S_def j_def)
      have fl1: "\<lfloor>x / of_int S\<rfloor> = n div S"
        by (simp add: x_def floor_divide_of_int_eq)
      have c1': "c1 = of_int (n div S * S)" and c2': "c2 = of_int ((n div S + 1) * S)"
        by (simp_all add: c1_def c2_def S(1) fl1)
      have dm: "n div S * S + n mod S = n"
        by simp
      have md: "0 \<le> n mod S" "n mod S < S"
        using S(2) by simp_all
      have ex: "(n div S + 1) * S = n div S * S + S"
        by (simp add: algebra_simps)
      have b1: "0 \<le> n div S * S" "n div S * S \<le> n"
      proof -
        show "0 \<le> n div S * S"
          using S(2) n(1) by (simp add: pos_imp_zdiv_nonneg_iff)
        show "n div S * S \<le> n"
          using dm md(1) by linarith
      qed
      have b2: "n < (n div S + 1) * S"
        unfolding ex using dm md by linarith
      have b3: "(n div S + 1) * S < 2 ^ 53"
      proof -
        have "(n div S + 1) * S = n div S * S + S" by (rule ex)
        also have "\<dots> \<le> n + n" using b1(2) Sn by linarith
        also have "\<dots> < 2 ^ 53" using n(2) by simp
        finally show ?thesis .
      qed
      have e1: "fl c1 = Fin c1"
        unfolding c1' using b1 n(2) by (intro fl_of_nonneg_int) simp_all
      have e2: "fl c2 = Fin c2"
        unfolding c2' using b2 b3 n(1) by (intro fl_of_nonneg_int) simp_all
      have "(n div S + 1) * S \<noteq> n" using b2 by simp
      then have "c2 \<noteq> x" unfolding c2' x_def by (simp only: of_int_eq_iff not_False_eq_True)
      then show ?thesis using e1 e2 by simp
    next
      case False
      define S :: int where "S = 10 ^ nat (- j)"
      have S: "pow10 j = 1 / of_int S" "0 < S"
        using False by (simp_all add: pow10_neg S_def)
      have "x / pow10 j = of_int (n * S)"
        using S(2) by (simp add: S(1) x_def)
      then have "\<lfloor>x / pow10 j\<rfloor> = n * S"
        by (simp only: floor_of_int)
      then have "c1 = of_int (n * S) * (1 / of_int S)"
        by (simp only: c1_def S(1))
      also have "\<dots> = x"
        using S(2) by (simp add: x_def)
      finally have "c1 = x" .
      then show ?thesis
        using flx by simp
  qed
  have A: "fl c1 = Fin x \<Longrightarrow> c1 = x" and B: "fl c2 = Fin x \<Longrightarrow> fl c1 = Fin x"
    using AB by simp_all
  show ?case
    apply (subst shortest_search.simps)
    apply (simp only: k17 if_False Let_def)
    apply (fold j_def x_def)
    apply (fold c1_def c2_def)
    apply (rule shortest_choice [OF A B lt])
    apply (simp_all add: IH x_def)
    done
qed

lemma shortest_decimal_of_int:
  assumes "\<bar>n\<bar> < 2 ^ 52"
  shows "shortest_decimal (of_int n) = of_int n"
proof -
  consider "n = 0" | "0 < n" | "n < 0" by linarith
  then show ?thesis
  proof cases
    case 1
    then show ?thesis by (simp add: shortest_decimal_def)
  next
    case 2
    then show ?thesis using assms shortest_search_of_int [of n 1]
      by (simp add: shortest_decimal_def)
  next
    case 3
    then have "shortest_search 1 (of_int (- n)) = of_int (- n)"
      using assms by (intro shortest_search_of_int) simp_all
    then show ?thesis using 3 by (simp add: shortest_decimal_def)
  qed
qed

subsection \<open>Requests that succeed\<close>

lemma round_scale2_of_int: "round_scale2 (of_int k) = of_int k"
proof -
  have a: "\<lfloor>(of_int k :: rat) * 100 + 1 / 2\<rfloor> = k * 100"
    by (rule floor_unique) simp_all
  have b: "\<lfloor>- (of_int k :: rat) * 100 + 1 / 2\<rfloor> = - k * 100"
    by (rule floor_unique) simp_all
  show ?thesis
    unfolding round_scale2_def a b by simp
qed

lemma begin_request_ok:
  assumes "True \<notin> set (faults s)"
  shows "begin_request rq s = (False, s\<lparr>faults := tl (faults s), requests := requests s @ [rq]\<rparr>)"
  using assms by (cases "faults s") (auto simp: begin_request_def next_request_fails_def)

lemma faults_tl: "True \<notin> set (faults s) \<Longrightarrow> True \<notin> set (tl (faults s))"
  by (cases "faults s") auto

lemma update_salary_ok:
  assumes "True \<notin> set (faults s)" "\<bar>k\<bar> < 10 ^ 10"
  shows "update_salary i (Fin (of_int k)) s =
     (None, s\<lparr>faults := tl (faults s), requests := requests s @ [UpdateSalary i (Fin (of_int k))],
              employees := map (set_salary i (of_int k) (clock s)) (employees s)\<rparr>)"
proof -
  have "\<bar>k\<bar> < 2 ^ 52" using assms(2) by simp
  then have sd: "shortest_decimal (of_int k) = of_int k"
    by (rule shortest_decimal_of_int)
  have "\<not> (10 :: rat) ^ 10 \<le> \<bar>of_int k\<bar>"
  proof -
    have "(of_int \<bar>k\<bar> :: rat) < of_int (10 ^ 10)"
      using assms(2) by (simp only: of_int_less_iff)
    then show ?thesis by simp
  qed
  then show ?thesis
    by (simp add: update_salary_def begin_request_ok [OF assms(1)] sd round_scale2_of_int Let_def)
qed

lemma run_updates_ok:
  assumes "True \<notin> set (faults s)" "distinct (map fst us)"
    and "list_all (\<lambda>u. \<exists>k. snd u = Fin (of_int k) \<and> \<bar>k\<bar> < 10 ^ 10) us"
  shows "\<exists>s'. run_updates us s = (None, s') \<and> clock s' = clock s
     \<and> pay_statements s' = pay_statements s
     \<and> list_all2 (updated_by us (clock s)) (employees s) (employees s')"
  using assms
proof (induction us arbitrary: s)
  case Nil
  then show ?case
    by (simp add: updated_by_def list_all2_same)
next
  case (Cons u us)
  obtain i v where u: "u = (i, v)" by (cases u)
  from Cons.prems(3) u obtain k where k: "v = Fin (of_int k)" "\<bar>k\<bar> < 10 ^ 10"
    by auto
  define s1 where "s1 = s\<lparr>faults := tl (faults s), requests := requests s @ [UpdateSalary i (Fin (of_int k))],
              employees := map (set_salary i (of_int k) (clock s)) (employees s)\<rparr>"
  have step: "update_salary i v s = (None, s1)"
    unfolding k(1) s1_def by (rule update_salary_ok [OF Cons.prems(1) k(2)])
  have "True \<notin> set (faults s1)"
    using Cons.prems(1) by (simp add: s1_def faults_tl)
  moreover have "distinct (map fst us)" "list_all (\<lambda>u. \<exists>k. snd u = Fin (of_int k) \<and> \<bar>k\<bar> < 10 ^ 10) us"
    using Cons.prems by simp_all
  ultimately obtain s' where s': "run_updates us s1 = (None, s')" "clock s' = clock s1"
      "pay_statements s' = pay_statements s1"
      "list_all2 (updated_by us (clock s1)) (employees s1) (employees s')"
    using Cons.IH [of s1] by blast
  have notin: "map_of us i = None"
    using Cons.prems(2) u by (simp add: map_of_eq_None_iff)
  have "list_all2 (\<lambda>r r'. updated_by us (clock s) (set_salary i (of_int k) (clock s) r) r')
      (employees s) (employees s')"
    using s'(4) by (simp add: s1_def list_all2_map1)
  then have "list_all2 (updated_by (u # us) (clock s)) (employees s) (employees s')"
  proof (rule list_all2_mono)
    fix r r'
    assume "updated_by us (clock s) (set_salary i (of_int k) (clock s) r) r'"
    then show "updated_by (u # us) (clock s) r r'"
      using notin by (auto simp: updated_by_def set_salary_def u k(1) split: if_splits option.splits)
  qed
  then show ?case
    using step s' by (simp add: u s1_def)
qed

subsection \<open>The salary screen\<close>

lemma select_by_salary_ok:
  assumes "\<not> next_request_fails s"
  shows "select_by_salary lo hi s =
     (Inr (map to_salary_item (filter (in_salary_range lo hi) (employees s))),
      s\<lparr>faults := tl (faults s), requests := requests s @ [SelectBySalary lo hi]\<rparr>)"
  using assms by (simp add: select_by_salary_def begin_request_def)

lemma no_fault_next: "True \<notin> set (faults s) \<Longrightarrow> \<not> next_request_fails s"
  by (cases "faults s") (auto simp: next_request_fails_def)

text \<open>
  C6. When the first request reaches the store and no employee has a salary in the
  range, the bulk adjustment ends with the result "affected 0" and the message that no
  employees were found. Nothing is printed to the console (it is a success, not the
  error result), the only request made is the selection, and the tables are as before.
\<close>

theorem bulk_adjustment_empty_range:
  assumes "\<not> next_request_fails (db w)"
    and "\<not> list_ex (in_salary_range (parseFloat (minSalary st)) (parseFloat (maxSalary st)))
            (employees (db w))"
  shows "handleSubmit st w =
     (st\<lparr>adj_loading := False,
         result := Some \<lparr>affected = 0, message = ''No employees found in the specified salary range.''\<rparr>\<rparr>,
      w\<lparr>db := (db w)\<lparr>faults := tl (faults (db w)),
          requests := requests (db w)
            @ [SelectBySalary (parseFloat (minSalary st)) (parseFloat (maxSalary st))]\<rparr>\<rparr>)"
proof -
  have "filter (in_salary_range (parseFloat (minSalary st)) (parseFloat (maxSalary st)))
          (employees (db w)) = []"
    using assms(2) by (simp add: list_ex_iff filter_empty_conv)
  then show ?thesis
    by (simp add: handleSubmit_def select_by_salary_ok [OF assms(1)] Let_def)
qed

lemma parseFloat_58000: "parseFloat ''58000'' = Fin 58000"
  by (simp add: parse_eval fl_eval)

lemma parseFloat_105000: "parseFloat ''105000'' = Fin 105000"
  by (simp add: parse_eval fl_eval)

lemma parseFloat_3_2: "parseFloat ''3.2'' = Fin (3602879701896397 / 1125899906842624)"
  by (simp add: parse_eval fl_eval)

lemma shortest_decimal_58000: "shortest_decimal 58000 = 58000"
  using shortest_decimal_of_int [of 58000] by simp

lemma shortest_decimal_105000: "shortest_decimal 105000 = 105000"
  using shortest_decimal_of_int [of 105000] by simp

lemmas sample_rows = john_def sarah_def michael_def employee_row_def

theorem bulk_adjustment_empty_range_witness:
  "\<not> next_request_fails (store_of [michael] []) \<and>
   \<not> list_ex (in_salary_range (parseFloat (minSalary scenario_form)) (parseFloat (maxSalary scenario_form)))
        (employees (db (world_of (store_of [michael] []) 0))) \<and>
   result (fst (handleSubmit scenario_form (world_of (store_of [michael] []) 0)))
     = Some \<lparr>affected = 0, message = ''No employees found in the specified salary range.''\<rparr> \<and>
   console (snd (handleSubmit scenario_form (world_of (store_of [michael] []) 0))) = [] \<and>
   employees (db (snd (handleSubmit scenario_form (world_of (store_of [michael] []) 0)))) = [michael] \<and>
   requests (db (snd (handleSubmit scenario_form (world_of (store_of [michael] []) 0))))
     = [SelectBySalary (Fin 58000) (Fin 105000)]"
  using bulk_adjustment_empty_range [of "world_of (store_of [michael] []) 0" scenario_form]
  by (simp add: next_request_fails_def store_of_def world_of_def scenario_form_def
      parseFloat_58000 parseFloat_105000 shortest_decimal_58000 shortest_decimal_105000
      in_salary_range_def sample_rows)

lemma map_of_filter_rows:
  assumes "distinct (map emp_id rows)" "r \<in> set rows"
  shows "map_of (map (\<lambda>r. (emp_id r, g r)) (filter P rows)) (emp_id r) = (if P r then Some (g r) else None)"
  using assms
proof (induction rows)
  case Nil
  then show ?case by simp
next
  case (Cons x rows)
  show ?case
  proof (cases "r = x")
    case True
    have "emp_id x \<notin> emp_id ` set (filter P rows)"
      using Cons.prems(1) by auto
    then have "map_of (map (\<lambda>r. (emp_id r, g r)) (filter P rows)) (emp_id x) = None"
      by (simp add: map_of_eq_None_iff image_image)
    then show ?thesis using True by simp
  next
    case False
    then have rin: "r \<in> set rows"
      using Cons.prems(2) by simp
    have "emp_id x \<notin> emp_id ` set rows"
      using Cons.prems(1) by simp
    then have "emp_id r \<noteq> emp_id x"
      using rin by (metis imageI)
    then show ?thesis using rin Cons.IH Cons.prems(1) by simp
  qed
qed

lemma salary_updates_of_items:
  "(\<lambda>emp. (si_emp_id emp, adjusted_salary p (si_salary emp))) \<circ> to_salary_item
     = (\<lambda>r. (emp_id r, adjusted_salary p (fl (salary r))))"
  by (simp add: fun_eq_iff to_salary_item_def)

text \<open>
  The run of the salary handler when no request fails and the column takes every new
  salary: the rows in range are updated as \<open>updated_by\<close> says, nothing else changes.
\<close>

lemma handleSubmit_fault_free:
  fixes st w
  defines "lo \<equiv> parseFloat (minSalary st)" and "hi \<equiv> parseFloat (maxSalary st)"
    and "p \<equiv> js_div (parseFloat (percentage st)) (Fin 100)"
  defines "sel \<equiv> filter (in_salary_range lo hi) (employees (db w))"
  assumes pk: "distinct (map emp_id (employees (db w)))"
    and ok: "True \<notin> set (faults (db w))"
    and fits: "list_all (\<lambda>r. in_salary_range lo hi r \<longrightarrow>
        (\<exists>k. adjusted_salary p (fl (salary r)) = Fin (of_int k) \<and> \<bar>k\<bar> < 10 ^ 10)) (employees (db w))"
  shows "\<exists>s'. snd (handleSubmit st w) = w\<lparr>db := s'\<rparr>
      \<and> list_all2 (updated_by (map (\<lambda>r. (emp_id r, adjusted_salary p (fl (salary r)))) sel) (clock (db w)))
            (employees (db w)) (employees s')
      \<and> pay_statements s' = pay_statements (db w)
      \<and> result (fst (handleSubmit st w)) = Some
           (if sel = [] then \<lparr>affected = 0, message = ''No employees found in the specified salary range.''\<rparr>
            else \<lparr>affected = length sel,
                   message = ''Successfully updated '' @ show_nat (length sel)
                     @ '' employee(s) with a '' @ percentage st @ ''% salary increase.''\<rparr>)"
proof -
  define s1 where "s1 = (db w)\<lparr>faults := tl (faults (db w)),
      requests := requests (db w) @ [SelectBySalary lo hi]\<rparr>"
  define us where "us = map (\<lambda>r. (emp_id r, adjusted_salary p (fl (salary r)))) sel"
  have sel1: "select_by_salary lo hi (db w) = (Inr (map to_salary_item sel), s1)"
    unfolding s1_def sel_def by (rule select_by_salary_ok [OF no_fault_next [OF ok]])
  have s1: "True \<notin> set (faults s1)" "employees s1 = employees (db w)" "clock s1 = clock (db w)"
      "pay_statements s1 = pay_statements (db w)"
    using ok by (simp_all add: s1_def faults_tl)
  have d: "distinct (map fst us)"
    using pk by (simp add: us_def sel_def o_def distinct_map_filter)
  have f: "list_all (\<lambda>u. \<exists>k. snd u = Fin (of_int k) \<and> \<bar>k\<bar> < 10 ^ 10) us"
    using fits by (auto simp: us_def sel_def list_all_iff)
  obtain s2 where s2: "run_updates us s1 = (None, s2)" "clock s2 = clock s1"
      "pay_statements s2 = pay_statements s1"
      "list_all2 (updated_by us (clock s1)) (employees s1) (employees s2)"
    using run_updates_ok [OF s1(1) d f] by blast
  show ?thesis
  proof (cases "sel = []")
    case True
    then have "handleSubmit st w =
        (st\<lparr>adj_loading := False,
            result := Some \<lparr>affected = 0, message = ''No employees found in the specified salary range.''\<rparr>\<rparr>,
         w\<lparr>db := s1\<rparr>)"
      using sel1 by (simp add: handleSubmit_def Let_def lo_def hi_def)
    moreover have "list_all2 (updated_by us (clock (db w))) (employees (db w)) (employees s1)"
      using True by (simp add: us_def s1(2) updated_by_def list_all2_same)
    ultimately show ?thesis
      using True s1 by (auto simp: us_def)
  next
    case False
    then have "handleSubmit st w =
        (st\<lparr>percentage := [], minSalary := [], maxSalary := [], adj_loading := False,
            result := Some \<lparr>affected = length sel,
              message = ''Successfully updated '' @ show_nat (length sel)
                @ '' employee(s) with a '' @ percentage st @ ''% salary increase.''\<rparr>\<rparr>,
         w\<lparr>db := s2\<rparr>)"
      using sel1 s2(1)
      by (simp add: handleSubmit_def Let_def lo_def hi_def p_def salary_updates_of_items us_def)
    then show ?thesis
      using False s1 s2 by (auto simp: us_def)
  qed
qed

lemma js_round_Fin:
  assumes "js_round y = Fin v"
  shows "\<exists>a. y = Fin a \<and> v = of_int \<lfloor>a + 1 / 2\<rfloor> \<and> \<bar>v - a\<bar> \<le> 1 / 2"
proof (cases y)
  case (Fin a)
  have "of_int \<lfloor>a + 1 / 2\<rfloor> \<le> a + 1 / 2" "a + 1 / 2 < of_int \<lfloor>a + 1 / 2\<rfloor> + 1"
    by linarith+
  then have "\<bar>of_int \<lfloor>a + 1 / 2\<rfloor> - a\<bar> \<le> 1 / 2"
    by linarith
  then show ?thesis using assms Fin by auto
qed (use assms in simp_all)

text \<open>
  C1, amended. Let \<open>lo\<close>, \<open>hi\<close> be the numbers read from the two salary fields and \<open>p\<close> the number
  read from the percentage field divided by 100. If the employee ids are distinct (the
  primary key), no request of the operation fails, and every new salary is a finite
  number the salary column can hold, then after the bulk adjustment every employee
  whose salary was in the range \<open>lo \<le> salary < hi\<close> has the salary
  \<^verbatim>\<open>Math.round(salary * (1 + p))\<close>, computed in the arithmetic of JavaScript numbers: a
  whole number at most one half away from the product as JavaScript computes it (which
  need not be the exact product, see the example below). Every other employee is
  unchanged. The bounds are compared as the store reads them, by their decimal text.
\<close>

theorem bulk_adjustment_salaries:
  assumes "distinct (map emp_id (employees (db w)))"
    and "True \<notin> set (faults (db w))"
    and "lo = parseFloat (minSalary st)" and "hi = parseFloat (maxSalary st)"
    and "p = js_div (parseFloat (percentage st)) (Fin 100)"
    and "list_all (\<lambda>r. in_salary_range lo hi r \<longrightarrow>
        (\<exists>k. adjusted_salary p (fl (salary r)) = Fin (of_int k) \<and> \<bar>k\<bar> < 10 ^ 10)) (employees (db w))"
  shows "list_all2
     (\<lambda>r r'. if in_salary_range lo hi r
        then Fin (salary r') = adjusted_salary p (fl (salary r))
          \<and> (\<exists>a. js_mul (fl (salary r)) (js_add (Fin 1) p) = Fin a
                \<and> salary r' = of_int \<lfloor>a + 1 / 2\<rfloor> \<and> \<bar>salary r' - a\<bar> \<le> 1 / 2)
          \<and> r' = r\<lparr>salary := salary r', updated_at := clock (db w)\<rparr>
        else r' = r)
     (employees (db w)) (employees (db (snd (handleSubmit st w))))"
proof -
  define us where "us = map (\<lambda>r. (emp_id r, adjusted_salary p (fl (salary r))))
      (filter (in_salary_range lo hi) (employees (db w)))"
  obtain s' where s': "snd (handleSubmit st w) = w\<lparr>db := s'\<rparr>"
      "list_all2 (updated_by us (clock (db w))) (employees (db w)) (employees s')"
    using handleSubmit_fault_free [of w st] assms unfolding us_def by blast
  have "list_all2
     (\<lambda>r r'. if in_salary_range lo hi r
        then Fin (salary r') = adjusted_salary p (fl (salary r))
          \<and> (\<exists>a. js_mul (fl (salary r)) (js_add (Fin 1) p) = Fin a
                \<and> salary r' = of_int \<lfloor>a + 1 / 2\<rfloor> \<and> \<bar>salary r' - a\<bar> \<le> 1 / 2)
          \<and> r' = r\<lparr>salary := salary r', updated_at := clock (db w)\<rparr>
        else r' = r)
     (employees (db w)) (employees s')"
    using s'(2)
  proof (rule list.rel_mono_strong)
    fix r r'
    assume r: "r \<in> set (employees (db w))" and u: "updated_by us (clock (db w)) r r'"
    have m: "map_of us (emp_id r) =
        (if in_salary_range lo hi r then Some (adjusted_salary p (fl (salary r))) else None)"
      unfolding us_def by (rule map_of_filter_rows [OF assms(1) r])
    show "if in_salary_range lo hi r
        then Fin (salary r') = adjusted_salary p (fl (salary r))
          \<and> (\<exists>a. js_mul (fl (salary r)) (js_add (Fin 1) p) = Fin a
                \<and> salary r' = of_int \<lfloor>a + 1 / 2\<rfloor> \<and> \<bar>salary r' - a\<bar> \<le> 1 / 2)
          \<and> r' = r\<lparr>salary := salary r', updated_at := clock (db w)\<rparr>
        else r' = r"
    proof (cases "in_salary_range lo hi r")
      case True
      then have eq: "Fin (salary r') = adjusted_salary p (fl (salary r))"
          and row: "r' = r\<lparr>salary := salary r', updated_at := clock (db w)\<rparr>"
        using u m by (simp_all add: updated_by_def)
      from eq have "js_round (js_mul (fl (salary r)) (js_add (Fin 1) p)) = Fin (salary r')"
        by (simp add: adjusted_salary_def)
      then have "\<exists>a. js_mul (fl (salary r)) (js_add (Fin 1) p) = Fin a
          \<and> salary r' = of_int \<lfloor>a + 1 / 2\<rfloor> \<and> \<bar>salary r' - a\<bar> \<le> 1 / 2"
        by (rule js_round_Fin)
      then show ?thesis using True eq row by simp
    next
      case False
      then show ?thesis using u m by (simp add: updated_by_def)
    qed
  qed
  then show ?thesis by (simp add: s'(1))
qed

lemma parseFloat_15: "parseFloat ''15'' = Fin 15"
  by (simp add: parse_eval fl_eval)

lemma parseFloat_52000: "parseFloat ''52000'' = Fin 52000"
  by (simp add: parse_eval fl_eval)

lemma parseFloat_75000: "parseFloat ''75000'' = Fin 75000"
  by (simp add: parse_eval fl_eval)

lemma shortest_decimal_52000: "shortest_decimal 52000 = 52000"
  using shortest_decimal_of_int [of 52000] by simp

lemma shortest_decimal_75000: "shortest_decimal 75000 = 75000"
  using shortest_decimal_of_int [of 75000] by simp

lemma fl_numeral: "numeral n < (2 ^ 53 :: int) \<Longrightarrow> fl (numeral n) = Fin (numeral n)"
  using fl_of_int [of "numeral n"] by simp

lemma percent_15: "js_div (Fin 15) (Fin 100) = Fin (5404319552844595 / 36028797018963968)"
  by (simp add: fl_eval)

lemma percent_3_2:
  "js_div (Fin (3602879701896397 / 1125899906842624)) (Fin 100)
     = Fin (1152921504606847 / 36028797018963968)"
  by (simp add: fl_eval)

lemma raise_15_of_68000:
  "adjusted_salary (Fin (5404319552844595 / 36028797018963968)) (Fin 68000) = Fin 78200"
  by (simp add: adjusted_salary_def fl_eval)

lemma raise_15_of_52000:
  "adjusted_salary (Fin (5404319552844595 / 36028797018963968)) (Fin 52000) = Fin 59800"
  by (simp add: adjusted_salary_def fl_eval)

lemma raise_3_2_of_58000:
  "adjusted_salary (Fin (1152921504606847 / 36028797018963968)) (Fin 58000) = Fin 59856"
  by (simp add: adjusted_salary_def fl_eval)

lemma raise_3_2_of_104999:
  "adjusted_salary (Fin (1152921504606847 / 36028797018963968)) (Fin 104999) = Fin 108359"
  by (simp add: adjusted_salary_def fl_eval)

lemma int_salary: "\<bar>k\<bar> < 10 ^ 10 \<Longrightarrow> v = Fin (of_int k) \<Longrightarrow> \<exists>k. v = Fin (of_int k) \<and> \<bar>k\<bar> < 10 ^ 10"
  by blast

theorem bulk_adjustment_salaries_witness:
  "distinct (map emp_id (employees seed_store)) \<and> True \<notin> set (faults seed_store) \<and>
   list_all (\<lambda>r. in_salary_range (Fin 52000) (Fin 75000) r \<longrightarrow>
        (\<exists>k. adjusted_salary (js_div (Fin 15) (Fin 100)) (fl (salary r)) = Fin (of_int k) \<and> \<bar>k\<bar> < 10 ^ 10))
     (employees seed_store) \<and>
   map salary (employees (db (snd (handleSubmit raise_form (world_of seed_store 0)))))
     = [75000, 78200, 59800]"
proof -
  have h1: "distinct (map emp_id (employees (db (world_of seed_store 0))))"
    by (simp add: world_of_def seed_store_def store_of_def sample_rows)
  have h2: "True \<notin> set (faults (db (world_of seed_store 0)))"
    by (simp add: world_of_def seed_store_def store_of_def)
  have lo: "Fin 52000 = parseFloat (minSalary raise_form)"
    and hi: "Fin 75000 = parseFloat (maxSalary raise_form)"
    and p: "js_div (Fin 15) (Fin 100) = js_div (parseFloat (percentage raise_form)) (Fin 100)"
    by (simp_all add: raise_form_def parseFloat_52000 parseFloat_75000 parseFloat_15)
  have k1: "\<exists>k. Fin 78200 = Fin (of_int k) \<and> \<bar>k\<bar> < 10 ^ 10"
    by (rule int_salary [of 78200]) simp_all
  have k2: "\<exists>k. Fin 59800 = Fin (of_int k) \<and> \<bar>k\<bar> < 10 ^ 10"
    by (rule int_salary [of 59800]) simp_all
  have fits: "list_all (\<lambda>r. in_salary_range (Fin 52000) (Fin 75000) r \<longrightarrow>
        (\<exists>k. adjusted_salary (js_div (Fin 15) (Fin 100)) (fl (salary r)) = Fin (of_int k) \<and> \<bar>k\<bar> < 10 ^ 10))
     (employees (db (world_of seed_store 0)))"
    using k1 k2
    by (simp add: world_of_def seed_store_def store_of_def sample_rows in_salary_range_def
        shortest_decimal_52000 shortest_decimal_75000 fl_numeral percent_15
        raise_15_of_68000 raise_15_of_52000 del: js_div.simps)
  have "list_all2
     (\<lambda>r r'. if in_salary_range (Fin 52000) (Fin 75000) r
        then Fin (salary r') = adjusted_salary (js_div (Fin 15) (Fin 100)) (fl (salary r))
          \<and> (\<exists>a. js_mul (fl (salary r)) (js_add (Fin 1) (js_div (Fin 15) (Fin 100))) = Fin a
                \<and> salary r' = of_int \<lfloor>a + 1 / 2\<rfloor> \<and> \<bar>salary r' - a\<bar> \<le> 1 / 2)
          \<and> r' = r\<lparr>salary := salary r', updated_at := clock (db (world_of seed_store 0))\<rparr>
        else r' = r)
     (employees (db (world_of seed_store 0)))
     (employees (db (snd (handleSubmit raise_form (world_of seed_store 0)))))"
    by (rule bulk_adjustment_salaries [OF h1 h2 lo hi p fits])
  then have "map salary (employees (db (snd (handleSubmit raise_form (world_of seed_store 0)))))
     = [75000, 78200, 59800]"
    by (auto simp: world_of_def seed_store_def store_of_def sample_rows in_salary_range_def
        shortest_decimal_52000 shortest_decimal_75000 fl_numeral percent_15
        raise_15_of_68000 raise_15_of_52000 list_all2_Cons1 simp del: js_div.simps)
  then show ?thesis
    using h1 h2 fits by (simp add: world_of_def)
qed

lemma update_salary_numeral:
  assumes "True \<notin> set (faults s)" "(numeral n :: int) < 10 ^ 10"
  shows "update_salary i (Fin (numeral n)) s =
     (None, s\<lparr>faults := tl (faults s), requests := requests s @ [UpdateSalary i (Fin (numeral n))],
              employees := map (set_salary i (numeral n) (clock s)) (employees s)\<rparr>)"
  using update_salary_ok [of s "numeral n" i] assms by simp

lemma show_nat_2: "show_nat (Suc (Suc 0)) = ''2''"
  by code_simp

text \<open>
  C2. With the form filled as 3.2 percent for salaries from 58000 to below 105000, the
  employee with salary 58000 gets 59856 and the one with 104999 gets 108359; the one
  with exactly 105000 is not in the range, receives no update and keeps the salary.
\<close>

theorem salary_scenario:
  "adjusted_salary (js_div (parseFloat ''3.2'') (Fin 100)) (Fin 58000) = Fin 59856 \<and>
   adjusted_salary (js_div (parseFloat ''3.2'') (Fin 100)) (Fin 104999) = Fin 108359 \<and>
   \<not> in_salary_range (parseFloat ''58000'') (parseFloat ''105000'') (michael\<lparr>salary := 105000\<rparr>) \<and>
   map salary (employees (db (snd (handleSubmit scenario_form (world_of scenario_store 0)))))
     = [59856, 108359, 105000] \<and>
   requests (db (snd (handleSubmit scenario_form (world_of scenario_store 0))))
     = [SelectBySalary (Fin 58000) (Fin 105000), UpdateSalary 1 (Fin 59856), UpdateSalary 2 (Fin 108359)] \<and>
   result (fst (handleSubmit scenario_form (world_of scenario_store 0)))
     = Some \<lparr>affected = 2, message = ''Successfully updated 2 employee(s) with a 3.2% salary increase.''\<rparr>"
proof -
  have run: "handleSubmit scenario_form (world_of scenario_store 0) =
      (\<lparr>percentage = [], minSalary = [], maxSalary = [], adj_loading = False,
        result = Some \<lparr>affected = 2,
          message = ''Successfully updated 2 employee(s) with a 3.2% salary increase.''\<rparr>\<rparr>,
       \<lparr>db = \<lparr>employees = [john\<lparr>salary := 59856, updated_at := 1\<rparr>,
                  sarah\<lparr>salary := 108359, updated_at := 1\<rparr>, michael\<lparr>salary := 105000\<rparr>],
               pay_statements = [], clock = 1, faults = [],
               requests = [SelectBySalary (Fin 58000) (Fin 105000), UpdateSalary 1 (Fin 59856),
                 UpdateSalary 2 (Fin 108359)]\<rparr>,
        console = [], tz = 0\<rparr>)"
    by (simp add: handleSubmit_def Let_def scenario_form_def world_of_def scenario_store_def store_of_def
        parseFloat_3_2 parseFloat_58000 parseFloat_105000 percent_3_2
        select_by_salary_ok next_request_fails_def in_salary_range_def
        shortest_decimal_58000 shortest_decimal_105000 sample_rows to_salary_item_def fl_numeral
        raise_3_2_of_58000 raise_3_2_of_104999 update_salary_numeral set_salary_def
        show_nat_2 del: js_div.simps)
  show ?thesis
    by (simp add: run parseFloat_3_2 parseFloat_58000 parseFloat_105000 percent_3_2
        raise_3_2_of_58000 raise_3_2_of_104999 in_salary_range_def shortest_decimal_105000
        sample_rows del: js_div.simps)
qed

lemma parseFloat_0_5: "parseFloat ''0.5'' = Fin (1 / 2)"
  by (simp add: parse_eval fl_eval)

lemma parseFloat_0: "parseFloat ''0'' = Fin 0"
  by (simp add: parse_eval fl_eval)

lemma parseFloat_1000: "parseFloat ''1000'' = Fin 1000"
  by (simp add: parse_eval fl_eval)

lemma shortest_decimal_1000: "shortest_decimal 1000 = 1000"
  using shortest_decimal_of_int [of 1000] by simp

lemma shortest_decimal_0: "shortest_decimal 0 = 0"
  by (simp add: shortest_decimal_def)

lemma percent_0_5: "js_div (Fin (1 / 2)) (Fin 100) = Fin (5764607523034235 / 1152921504606846976)"
  by (simp add: fl_eval)

lemma raise_0_5_of_100:
  "adjusted_salary (Fin (5764607523034235 / 1152921504606846976)) (Fin 100) = Fin 100"
  by (simp add: adjusted_salary_def fl_eval)

lemma raise_0_5_of_300:
  "adjusted_salary (Fin (5764607523034235 / 1152921504606846976)) (Fin 300) = Fin 301"
  by (simp add: adjusted_salary_def fl_eval)

lemma raise_0_5_of_500:
  "adjusted_salary (Fin (5764607523034235 / 1152921504606846976)) (Fin 500) = Fin 502"
  by (simp add: adjusted_salary_def fl_eval)

lemma show_nat_3: "show_nat (Suc (Suc (Suc 0))) = ''3''"
  by code_simp

text \<open>
  C1, as stated, fails: the new salary is computed in JavaScript numbers, and is not
  always the exact product rounded to the nearest whole unit. At 0.5 percent the factor
  \<^verbatim>\<open>1 + 0.5 / 100\<close> is a little below 1.005, so the products for the salaries 100, 300
  and 500 fall just below 100.5, 301.5 and 502.5: the code stores 100, 301 and 502,
  where the exact products round to 101, 302 and 503 (and 301.5 rounds to 302 also
  when a tie goes to the even neighbour). All three employees are in the range, no
  request fails, and the operation reports success.
\<close>

theorem bulk_adjustment_salaries_counterexample:
  "list_all (in_salary_range (parseFloat (minSalary half_percent_form))
       (parseFloat (maxSalary half_percent_form))) (employees half_percent_store) \<and>
   map salary (employees (db (snd (handleSubmit half_percent_form (world_of half_percent_store 0)))))
     = [100, 301, 502] \<and>
   result (fst (handleSubmit half_percent_form (world_of half_percent_store 0)))
     = Some \<lparr>affected = 3, message = ''Successfully updated 3 employee(s) with a 0.5% salary increase.''\<rparr> \<and>
   map (\<lambda>r. rounded_raise (1 / 2) (salary r)) (employees half_percent_store) = [101, 302, 503] \<and>
   round_half_even (300 * (1 + (1 / 2) / 100)) = 302"
proof -
  have run: "handleSubmit half_percent_form (world_of half_percent_store 0) =
      (\<lparr>percentage = [], minSalary = [], maxSalary = [], adj_loading = False,
        result = Some \<lparr>affected = 3,
          message = ''Successfully updated 3 employee(s) with a 0.5% salary increase.''\<rparr>\<rparr>,
       \<lparr>db = \<lparr>employees = [john\<lparr>salary := 100, updated_at := 1\<rparr>,
                  sarah\<lparr>salary := 301, updated_at := 1\<rparr>, michael\<lparr>salary := 502, updated_at := 1\<rparr>],
               pay_statements = [], clock = 1, faults = [],
               requests = [SelectBySalary (Fin 0) (Fin 1000), UpdateSalary 1 (Fin 100),
                 UpdateSalary 2 (Fin 301), UpdateSalary 3 (Fin 502)]\<rparr>,
        console = [], tz = 0\<rparr>)"
    by (simp add: handleSubmit_def Let_def half_percent_form_def world_of_def half_percent_store_def
        store_of_def parseFloat_0_5 parseFloat_0 parseFloat_1000 percent_0_5
        select_by_salary_ok next_request_fails_def in_salary_range_def
        shortest_decimal_0 shortest_decimal_1000 sample_rows to_salary_item_def fl_numeral
        raise_0_5_of_100 raise_0_5_of_300 raise_0_5_of_500 update_salary_numeral set_salary_def
        show_nat_3 del: js_div.simps)
  have range: "list_all (in_salary_range (parseFloat (minSalary half_percent_form))
       (parseFloat (maxSalary half_percent_form))) (employees half_percent_store)"
    by (simp add: half_percent_form_def half_percent_store_def store_of_def parseFloat_0
        parseFloat_1000 in_salary_range_def shortest_decimal_0 shortest_decimal_1000 sample_rows)
  have exact: "map (\<lambda>r. rounded_raise (1 / 2) (salary r)) (employees half_percent_store) = [101, 302, 503]"
    by (simp add: rounded_raise_def half_percent_store_def store_of_def sample_rows fl_eval)
  have even: "round_half_even (300 * (1 + (1 / 2) / 100)) = 302"
    by (simp add: round_half_even_def Let_def fl_eval)
  show ?thesis
    using range exact even by (simp add: run)
qed

subsection \<open>The reports\<close>

lemma first_keys_snoc:
  "first_keys (xs @ [x]) =
     (if item_key x \<in> set (first_keys xs) \<or> item_key x \<in> set object_prototype_keys
      then first_keys xs else first_keys xs @ [item_key x])"
  by (auto simp: first_keys_def)

lemma distinct_first_keys: "distinct (first_keys data)"
  by (simp add: first_keys_def)

lemma set_first_keys:
  "set (first_keys data) = {k \<in> item_key ` set data. k \<notin> set object_prototype_keys}"
  by (auto simp: first_keys_def)

lemma map_of_entries:
  "map_of (map (entry_of data) ks) k = (if k \<in> set ks then Some (snd (entry_of data k)) else None)"
  by (induction ks) (auto simp: entry_of_def)

lemma js_sum_snoc: "js_sum (ns @ [n]) = js_add (js_sum ns) n"
  by (simp add: js_sum_def)

lemma add_to_entry_of:
  "add_to_entry (item_key x) (item_gross_pay x) (entry_of xs k) = entry_of (xs @ [x]) k"
  by (simp add: add_to_entry_def entry_of_def rows_of_def js_sum_snoc)

lemma entry_of_new:
  assumes "item_key x \<notin> item_key ` set xs"
  shows "entry_of (xs @ [x]) (item_key x) = (item_key x, js_add (Fin 0) (item_gross_pay x), 1)"
proof -
  have "filter (\<lambda>i. item_key i = item_key x) xs = []"
    unfolding filter_empty_conv using assms by (metis imageI)
  then show ?thesis
    by (simp add: entry_of_def rows_of_def js_sum_def)
qed

lemma entry_of_other:
  assumes "k \<noteq> item_key x"
  shows "entry_of (xs @ [x]) k = entry_of xs k"
  using assms by (simp add: entry_of_def rows_of_def)

lemma grouped_snoc: "grouped (xs @ [x]) = reduce_step (grouped xs) x"
  by (simp add: grouped_def)

text \<open>
  The reduction, in closed form: one entry for each key that is no inherited name, in
  the order of first occurrence, holding the running sum and the number of its rows.
\<close>

lemma grouped_eq: "grouped data = map (entry_of data) (first_keys data)"
proof (induction data rule: rev_induct)
  case Nil
  then show ?case by (simp add: grouped_def first_keys_def)
next
  case (snoc x xs)
  let ?k = "item_key x"
  show ?case
  proof (cases "?k \<in> set (first_keys xs)")
    case True
    then have "reduce_step (grouped xs) x
        = map (add_to_entry ?k (item_gross_pay x)) (map (entry_of xs) (first_keys xs))"
      by (simp add: reduce_step_def snoc.IH map_of_entries Let_def)
    also have "\<dots> = map (entry_of (xs @ [x])) (first_keys xs)"
      by (simp add: add_to_entry_of o_def)
    finally show ?thesis
      using True by (simp add: grouped_snoc first_keys_snoc)
  next
    case False
    show ?thesis
    proof (cases "?k \<in> set object_prototype_keys")
      case True
      have "\<forall>k \<in> set (first_keys xs). k \<noteq> ?k"
        using False by auto
      then have "map (entry_of (xs @ [x])) (first_keys xs) = map (entry_of xs) (first_keys xs)"
        by (simp add: entry_of_other)
      moreover have "reduce_step (grouped xs) x = grouped xs"
        using False True by (simp add: reduce_step_def snoc.IH map_of_entries Let_def)
      ultimately show ?thesis
        using False True by (simp add: grouped_snoc first_keys_snoc snoc.IH)
    next
      case notproto: False
      have new: "?k \<notin> item_key ` set xs"
        using False notproto by (simp add: set_first_keys)
      have "\<forall>k \<in> set (first_keys xs). k \<noteq> ?k"
        using False by auto
      then have old: "map (entry_of (xs @ [x])) (first_keys xs) = map (entry_of xs) (first_keys xs)"
        by (simp add: entry_of_other)
      have "reduce_step (grouped xs) x = grouped xs @ [(?k, js_add (Fin 0) (item_gross_pay x), 1)]"
        using False notproto by (simp add: reduce_step_def snoc.IH map_of_entries Let_def)
      then show ?thesis
        using False notproto old by (simp add: grouped_snoc first_keys_snoc snoc.IH entry_of_new [OF new])
    qed
  qed
qed

lemma mset_entries: "mset (entries acc) = mset acc"
  by (simp add: entries_def)

lemma set_entries: "set (entries acc) = set acc"
  using mset_entries [of acc] by (metis set_mset_mset)

lemma sum_list_entries:
  fixes f :: "string \<times> number \<times> nat \<Rightarrow> 'a :: comm_monoid_add"
  shows "sum_list (map f (entries acc)) = sum_list (map f acc)"
proof -
  have "sum_mset (mset (map f (entries acc))) = sum_mset (mset (map f acc))"
    by (simp add: mset_entries)
  then show ?thesis
    by (simp only: sum_mset_sum_list)
qed

lemma aggregate_eq:
  "aggregate data = map to_group (entries (map (entry_of data) (first_keys data)))"
  by (simp add: aggregate_def grouped_eq)

lemma rows_of_nonempty:
  assumes "k \<in> set (first_keys data)"
  shows "rows_of k data \<noteq> []"
proof -
  from assms obtain i where "i \<in> set data" "item_key i = k"
    by (auto simp: set_first_keys)
  then show ?thesis
    by (auto simp: rows_of_def filter_empty_conv)
qed

text \<open>
  C9. Every group the reduction produces has a count of at least 1, whatever the rows:
  an entry exists only for a key that occurs in the rows, and counts them. So the
  divisor of the average shown in the table is never zero.
\<close>

theorem groups_counted:
  "\<forall>g \<in> set (aggregate data). 1 \<le> employee_count g \<and> Fin (of_nat (employee_count g)) \<noteq> Fin 0"
proof
  fix g
  assume "g \<in> set (aggregate data)"
  then obtain k where k: "k \<in> set (first_keys data)" and g: "g = to_group (entry_of data k)"
    by (auto simp: aggregate_eq set_entries)
  have "rows_of k data \<noteq> []"
    by (rule rows_of_nonempty [OF k])
  then have "1 \<le> length (rows_of k data)"
    by (cases "rows_of k data") simp_all
  then show "1 \<le> employee_count g \<and> Fin (of_nat (employee_count g)) \<noteq> Fin 0"
    by (auto simp: g to_group_def entry_of_def)
qed

lemma sum_list_delta_distinct:
  fixes c :: "'a :: comm_monoid_add"
  assumes "distinct ks"
  shows "sum_list (map (\<lambda>k. if a = k then c else 0) ks) = (if a \<in> set ks then c else 0)"
  using assms by (induction ks) auto

lemma sum_over_keys:
  fixes f :: "pay_item \<Rightarrow> nat"
  assumes "distinct ks" "item_key ` set xs \<subseteq> set ks"
  shows "sum_list (map (\<lambda>k. sum_list (map f (rows_of k xs))) ks) = sum_list (map f xs)"
  using assms(2)
proof (induction xs)
  case Nil
  then show ?case by (simp add: rows_of_def)
next
  case (Cons x xs)
  have split: "\<And>k. sum_list (map f (rows_of k (x # xs)))
      = (if item_key x = k then f x else 0) + sum_list (map f (rows_of k xs))"
    by (simp add: rows_of_def)
  have "sum_list (map (\<lambda>k. sum_list (map f (rows_of k (x # xs)))) ks)
      = sum_list (map (\<lambda>k. if item_key x = k then f x else 0) ks)
        + sum_list (map (\<lambda>k. sum_list (map f (rows_of k xs))) ks)"
    by (simp add: split sum_list_addf)
  also have "\<dots> = f x + sum_list (map f xs)"
    using Cons assms(1) by (simp add: sum_list_delta_distinct)
  finally show ?case by simp
qed

lemma sum_list_ones: "sum_list (map (\<lambda>_. Suc 0) xs) = length xs"
  by (induction xs) auto

lemma keys_cover:
  assumes "list_all (\<lambda>i. item_key i \<notin> set object_prototype_keys) data"
  shows "item_key ` set data \<subseteq> set (first_keys data)"
  using assms by (auto simp: set_first_keys list_all_iff)

lemma counts_of_groups:
  assumes "list_all (\<lambda>i. item_key i \<notin> set object_prototype_keys) data"
  shows "sum_list (map employee_count (aggregate data)) = length data"
proof -
  have "sum_list (map employee_count (aggregate data))
      = sum_list (map (\<lambda>e. snd (snd e)) (entries (map (entry_of data) (first_keys data))))"
    by (simp add: aggregate_eq o_def to_group_def split_beta)
  also have "\<dots> = sum_list (map (\<lambda>e. snd (snd e)) (map (entry_of data) (first_keys data)))"
    by (rule sum_list_entries)
  also have "\<dots> = sum_list (map (\<lambda>k. sum_list (map (\<lambda>_. Suc 0) (rows_of k data))) (first_keys data))"
    by (simp add: o_def entry_of_def sum_list_ones)
  also have "\<dots> = sum_list (map (\<lambda>_. Suc 0) data)"
    by (rule sum_over_keys [OF distinct_first_keys keys_cover [OF assms]])
  finally show ?thesis by (simp add: sum_list_ones)
qed

lemma group_of_aggregate:
  assumes "g \<in> set (aggregate data)"
  shows "total_pay g = js_sum (map item_gross_pay (rows_of (group_key g) data))
     \<and> employee_count g = length (rows_of (group_key g) data)"
proof -
  from assms obtain k where "g = to_group (entry_of data k)"
    by (auto simp: aggregate_eq set_entries)
  then show ?thesis by (simp add: to_group_def entry_of_def)
qed

lemma whole_amounts_amount:
  assumes "whole_amounts data ns"
  shows "map amount_of data = ns" and "\<forall>i \<in> set data. item_gross_pay i = Fin (of_nat (amount_of i))"
proof -
  have eq: "map item_gross_pay data = map (\<lambda>n. Fin (of_nat n)) ns"
    using assms by (simp add: whole_amounts_def)
  then have "list_all2 (\<lambda>i n. item_gross_pay i = Fin (of_nat n)) data ns"
    by (simp add: list_all2_conv_all_nth list_eq_iff_nth_eq)
  then have r: "list_all2 (\<lambda>i n. amount_of i = n \<and> item_gross_pay i = Fin (of_nat (amount_of i))) data ns"
    by (rule list_all2_mono) (simp add: amount_of_def)
  then show "map amount_of data = ns"
    by (induction rule: list_all2_induct) simp_all
  from r show "\<forall>i \<in> set data. item_gross_pay i = Fin (of_nat (amount_of i))"
    by (induction rule: list_all2_induct) simp_all
qed

lemma js_add_whole:
  assumes "a + b < 2 ^ 53"
  shows "js_add (Fin (of_nat a)) (Fin (of_nat b)) = Fin (of_nat (a + b))"
proof -
  have "\<bar>int (a + b)\<bar> < 2 ^ 53"
    using assms by (metis abs_of_nat of_nat_less_numeral_power_cancel_iff)
  then have "fl (of_int (int (a + b))) = Fin (of_int (int (a + b)))"
    by (rule fl_of_int)
  then show ?thesis by simp
qed

lemma js_sum_whole:
  assumes "\<forall>i \<in> set rows. item_gross_pay i = Fin (of_nat (amount_of i))"
    and "sum_list (map amount_of rows) < 2 ^ 53"
  shows "js_sum (map item_gross_pay rows) = Fin (of_nat (sum_list (map amount_of rows)))"
  using assms
proof (induction rows rule: rev_induct)
  case Nil
  then show ?case by (simp add: js_sum_def)
next
  case (snoc x xs)
  then have "js_sum (map item_gross_pay xs) = Fin (of_nat (sum_list (map amount_of xs)))"
    by simp
  moreover have "item_gross_pay x = Fin (of_nat (amount_of x))"
    using snoc.prems(1) by simp
  moreover have "sum_list (map amount_of xs) + amount_of x < 2 ^ 53"
    using snoc.prems(2) by simp
  ultimately show ?case
    by (simp add: js_sum_snoc js_add_whole del: js_add.simps)
qed

lemma of_nat_sum_list: "sum_list (map (\<lambda>x. of_nat (g x)) xs) = (of_nat (sum_list (map g xs)) :: rat)"
  by (induction xs) simp_all

lemma exact_sum_Fin: "exact_sum (map (\<lambda>x. Fin (h x)) xs) = Some (sum_list (map h xs))"
  by (induction xs) simp_all

lemma totals_of_whole_amounts:
  assumes keys: "list_all (\<lambda>i. item_key i \<notin> set object_prototype_keys) data"
    and whole: "whole_amounts data ns"
  shows "totals_conserved data"
proof -
  have gross: "\<forall>i \<in> set data. item_gross_pay i = Fin (of_nat (amount_of i))"
    and total: "sum_list (map amount_of data) < 2 ^ 53"
    using whole_amounts_amount [OF whole] whole by (simp_all add: whole_amounts_def)
  have group: "js_sum (map item_gross_pay (rows_of k data))
      = Fin (of_nat (sum_list (map amount_of (rows_of k data))))" for k
  proof (rule js_sum_whole)
    show "\<forall>i \<in> set (rows_of k data). item_gross_pay i = Fin (of_nat (amount_of i))"
      using gross by (simp add: rows_of_def)
    have "sum_list (map amount_of (rows_of k data)) \<le> sum_list (map amount_of data)"
      unfolding rows_of_def by (rule sum_list_filter_le_nat)
    then show "sum_list (map amount_of (rows_of k data)) < 2 ^ 53"
      using total by simp
  qed
  have "map total_pay (aggregate data)
      = map (\<lambda>e. Fin (of_nat (sum_list (map amount_of (rows_of (fst e) data)))))
          (entries (map (entry_of data) (first_keys data)))"
    by (simp add: aggregate_eq to_group_def split_beta set_entries entry_of_def group image_iff)
  then have "exact_sum (map total_pay (aggregate data))
      = Some (sum_list (map (\<lambda>e. of_nat (sum_list (map amount_of (rows_of (fst e) data))))
          (entries (map (entry_of data) (first_keys data)))))"
    by (simp only: exact_sum_Fin)
  also have "\<dots> = Some (sum_list (map (\<lambda>e. of_nat (sum_list (map amount_of (rows_of (fst e) data))))
          (map (entry_of data) (first_keys data))))"
    by (simp only: sum_list_entries)
  also have "\<dots> = Some (of_nat (sum_list (map (\<lambda>k. sum_list (map amount_of (rows_of k data)))
          (first_keys data))))"
    by (simp add: o_def entry_of_def of_nat_sum_list)
  also have "\<dots> = Some (of_nat (sum_list (map amount_of data)))"
    by (simp only: sum_over_keys [OF distinct_first_keys keys_cover [OF keys]])
  also have "\<dots> = exact_sum (map item_gross_pay data)"
  proof -
    have "map item_gross_pay data = map (\<lambda>i. Fin (of_nat (amount_of i))) data"
      using gross by simp
    then show ?thesis
      by (simp only: exact_sum_Fin) (simp add: o_def of_nat_sum_list)
  qed
  finally show ?thesis
    by (simp add: totals_conserved_def)
qed

lemmas aggregate_eval = aggregate_def grouped_def reduce_step_def add_to_entry_def entries_def
  to_group_def is_array_index_def object_prototype_keys_def is_digit_def Let_def

lemma aggregate_inherited_key_rows: "aggregate inherited_key_rows = []"
  by (simp add: inherited_key_rows_def aggregate_eval)

lemma fl_2000: "fl 2000 = Fin 2000"
  by (simp add: fl_numeral)

lemma fl_3000: "fl 3000 = Fin 3000"
  by (simp add: fl_numeral)

lemma aggregate_division_rows:
  "aggregate division_rows =
     [\<lparr>group_key = ''Engineering'', total_pay = Fin (3594561896432271 / 549755813888), employee_count = 2\<rparr>,
      \<lparr>group_key = ''Marketing'', total_pay = Fin (2875640721052795 / 1099511627776), employee_count = 1\<rparr>]"
  by (simp add: division_rows_def aggregate_eval fl_eval)

lemma gross_division_rows:
  "map item_gross_pay division_rows =
     [Fin (3171673231715205 / 1099511627776), Fin (2875640721052795 / 1099511627776),
      Fin (8034901122298675 / 2199023255552)]"
  by (simp add: division_rows_def fl_eval)

lemma aggregate_whole_rows:
  "aggregate whole_rows =
     [\<lparr>group_key = ''Sales'', total_pay = Fin 4000, employee_count = 2\<rparr>,
      \<lparr>group_key = ''Engineering'', total_pay = Fin 3000, employee_count = 1\<rparr>]"
  by (simp add: whole_rows_def aggregate_eval fl_eval)

text \<open>
  C5, as stated, fails in two ways. A row whose key names a property every object
  inherits (here \<^verbatim>\<open>constructor\<close>) is counted in no group. And the totals are running sums
  of JavaScript numbers: for three statements of the sample data (2884.62 and 3653.85
  in Engineering, 2615.38 in Marketing) the totals of the groups do not add up to the
  sum of the gross pays, neither exactly nor when both sides are added as JavaScript
  numbers.
\<close>

theorem aggregation_conserved_counterexample:
  "\<not> counts_conserved inherited_key_rows \<and> \<not> totals_conserved inherited_key_rows \<and>
   \<not> totals_conserved division_rows \<and>
   js_sum (map total_pay (aggregate division_rows)) \<noteq> js_sum (map item_gross_pay division_rows)"
proof -
  have "\<not> counts_conserved inherited_key_rows" "\<not> totals_conserved inherited_key_rows"
    by (simp_all add: counts_conserved_def totals_conserved_def aggregate_inherited_key_rows)
      (simp_all add: inherited_key_rows_def fl_2000)
  moreover have "\<not> totals_conserved division_rows"
    by (simp add: totals_conserved_def aggregate_division_rows gross_division_rows)
  moreover have "js_sum (map total_pay (aggregate division_rows))
      \<noteq> js_sum (map item_gross_pay division_rows)"
    by (simp add: aggregate_division_rows gross_division_rows js_sum_def fl_eval)
  ultimately show ?thesis by simp
qed

text \<open>
  C5, amended. For rows none of whose keys names an inherited property: the counts of
  the groups add up to the number of rows; every group holds the number of its rows and
  the running sum, in JavaScript numbers and in the order of the rows, of their gross
  pay; and when the gross pays are whole numbers \<open>ns\<close> with a total below \<open>2^53\<close>, the
  totals of the groups add up exactly to the sum of the gross pays.
\<close>

theorem aggregation_conserved:
  assumes "list_all (\<lambda>i. item_key i \<notin> set object_prototype_keys) data"
  shows "counts_conserved data
     \<and> list_all (\<lambda>g. total_pay g = js_sum (map item_gross_pay (rows_of (group_key g) data))
           \<and> employee_count g = length (rows_of (group_key g) data)) (aggregate data)
     \<and> (whole_amounts data ns \<longrightarrow> totals_conserved data)"
  using assms
  by (simp add: counts_conserved_def counts_of_groups list_all_iff group_of_aggregate
      totals_of_whole_amounts)

theorem aggregation_conserved_witness:
  "list_all (\<lambda>i. item_key i \<notin> set object_prototype_keys) whole_rows \<and>
   whole_amounts whole_rows [2000, 3000, 2000] \<and>
   counts_conserved whole_rows \<and> totals_conserved whole_rows \<and>
   map total_pay (aggregate whole_rows) = [Fin 4000, Fin 3000]"
proof -
  have keys: "list_all (\<lambda>i. item_key i \<notin> set object_prototype_keys) whole_rows"
    by (simp add: whole_rows_def object_prototype_keys_def)
  have whole: "whole_amounts whole_rows [2000, 3000, 2000]"
    by (simp add: whole_amounts_def whole_rows_def fl_2000 fl_3000)
  show ?thesis
    using aggregation_conserved [OF keys, of "[2000, 3000, 2000]"] keys whole
    by (simp add: aggregate_whole_rows)
qed

theorem groups_counted_witness:
  "aggregate whole_rows \<noteq> [] \<and> 1 \<le> employee_count (hd (aggregate whole_rows))
   \<and> average_pay (hd (aggregate whole_rows)) = Fin 2000"
  using groups_counted [of whole_rows]
  by (simp add: aggregate_whole_rows average_pay_def fl_eval)

subsection \<open>Queries that fail\<close>

lemma select_employees_fault:
  assumes "next_request_fails s"
  shows "select_employees f s =
     (Inl Unavailable, s\<lparr>faults := tl (faults s), requests := requests s @ [SelectEmployees f]\<rparr>)"
  using assms by (simp add: select_employees_def begin_request_def)

lemma select_employees_ok:
  assumes "\<not> next_request_fails s"
  shows "select_employees f s =
     (case apply_filter f (employees s) of
        Inl e \<Rightarrow> Inl e
      | Inr rows \<Rightarrow> Inr (map to_client rows),
      s\<lparr>faults := tl (faults s), requests := requests s @ [SelectEmployees f]\<rparr>)"
  using assms by (simp add: select_employees_def begin_request_def split: sum.splits)


lemma aggregate_Nil: "aggregate [] = []"
  by (simp add: aggregate_def grouped_def entries_def)



lemma select_pay_ok:
  assumes "\<not> next_request_fails s"
  shows "select_pay col a b s =
     (case (date_of_time_value a, date_of_time_value b) of
        (Some x, Some y) \<Rightarrow>
          Inr (concat (map (join_owner col (employees s)) (filter (in_period x y) (pay_statements s))))
      | _ \<Rightarrow> Inl InvalidInput,
      s\<lparr>faults := tl (faults s), requests := requests s @ [SelectPay col a b]\<rparr>)"
  using assms by (simp add: select_pay_def begin_request_def split: option.splits)

lemma january_bounds_utc: "month_bounds 0 (2024, Suc 0) = Some (1704067200000, 1706659200000)"
  by code_simp

lemma date_of_january_first: "date_of_time_value 1704067200000 = Some (2024, 1, 1)"
  by code_simp

lemma date_of_january_last: "date_of_time_value 1706659200000 = Some (2024, 1, 31)"
  by code_simp


subsection \<open>Search by identifier\<close>

lemma trim_nonblank:
  assumes "\<not> is_js_whitespace (hd s)" "s \<noteq> []"
  shows "trim s \<noteq> []"
proof -
  obtain c r where s: "s = c # r" using assms(2) by (cases s) auto
  then show ?thesis using assms(1) by (simp add: trim_def)
qed

lemma parseInt_abc: "parseInt ''abc'' = NaN"
  by (simp add: parse_eval)

lemma int4_of_NaN: "int4_of_number NaN = None"
  by (simp add: int4_of_number_def)

text \<open>
  C8, as stated, fails in its last part: the store does not answer the filter
  \<^verbatim>\<open>emp_id = NaN\<close> with zero rows, it refuses it, and the handler then leaves the result
  list as it was. A screen that shows an employee from an earlier search still shows
  that employee after the search for the id \<^verbatim>\<open>abc\<close>.
\<close>

theorem numeric_id_search_counterexample:
  "parseInt (searchTerm id_search) = NaN \<and>
   results (fst (handleSearch id_search (world_of seed_store 0))) = [to_client john] \<and>
   requests (db (snd (handleSearch id_search (world_of seed_store 0))))
     = [SelectEmployees (EmpIdEq NaN)] \<and>
   console (snd (handleSearch id_search (world_of seed_store 0)))
     = [(''Error searching employees:'', StoreFailure InvalidInput)]"
proof -
  have works: "\<not> next_request_fails seed_store"
    by (simp add: next_request_fails_def seed_store_def store_of_def)
  have nonblank: "trim ''abc'' \<noteq> []"
    by (rule trim_nonblank) (simp_all add: is_js_whitespace_def)
  show ?thesis
    using nonblank
    by (simp add: handleSearch_def id_search_def world_of_def search_filter_def parseInt_abc
        select_employees_ok [OF works] apply_filter_def int4_of_NaN)
      (simp_all add: seed_store_def store_of_def)
qed

text \<open>
  C8, amended. For every search term that is not blank and does not parse as an
  integer (\<^verbatim>\<open>parseInt\<close> gives \<^verbatim>\<open>NaN\<close>), the search by numeric id validates nothing and
  sends the filter \<^verbatim>\<open>emp_id = NaN\<close> to the store. The filter matches no row: the store
  refuses it, since \<^verbatim>\<open>NaN\<close> is no integer. The error is printed to the console and goes
  no further, the loading flag is cleared, and the result list stays as it was (empty
  if it was empty).
\<close>

theorem numeric_id_search_unparsed:
  assumes "trim (searchTerm st) \<noteq> []" and "searchType st = ''empid''"
    and "parseInt (searchTerm st) = NaN"
  shows "search_filter (searchType st) (searchTerm st) = EmpIdEq NaN
     \<and> apply_filter (EmpIdEq NaN) rows = Inl InvalidInput
     \<and> handleSearch st w =
         (st\<lparr>loading := False\<rparr>,
          w\<lparr>db := (db w)\<lparr>faults := tl (faults (db w)),
                 requests := requests (db w) @ [SelectEmployees (EmpIdEq NaN)]\<rparr>,
            console := console w @ [(''Error searching employees:'',
              StoreFailure (if next_request_fails (db w) then Unavailable else InvalidInput))]\<rparr>)"
proof -
  have f: "search_filter (searchType st) (searchTerm st) = EmpIdEq NaN"
    using assms(2,3) by (simp add: search_filter_def)
  have a: "apply_filter (EmpIdEq NaN) rs = Inl InvalidInput" for rs
    by (simp add: apply_filter_def int4_of_NaN)
  show ?thesis
  proof (cases "next_request_fails (db w)")
    case True
    then show ?thesis
      using assms(1) by (simp add: f a handleSearch_def select_employees_fault)
  next
    case False
    then show ?thesis
      using assms(1) by (simp add: f a handleSearch_def select_employees_ok)
  qed
qed

theorem numeric_id_search_unparsed_witness:
  "trim (searchTerm id_search) \<noteq> [] \<and> searchType id_search = ''empid'' \<and>
   parseInt (searchTerm id_search) = NaN \<and>
   fst (handleSearch id_search (world_of seed_store 0)) = id_search\<lparr>loading := False\<rparr> \<and>
   employees (db (snd (handleSearch id_search (world_of seed_store 0)))) = employees seed_store"
proof -
  have h: "trim (searchTerm id_search) \<noteq> []" "searchType id_search = ''empid''"
      "parseInt (searchTerm id_search) = NaN"
    by (simp_all add: id_search_def parseInt_abc trim_nonblank is_js_whitespace_def)
  show ?thesis
    using numeric_id_search_unparsed [OF h, of "employees seed_store" "world_of seed_store 0"] h
    by (simp add: world_of_def)
qed

subsection \<open>Search by identity number and by name\<close>

lemma filter_eq_distinct:
  "distinct (map f xs) \<Longrightarrow> length (filter (\<lambda>x. f x = t) xs) \<le> 1"
proof (induction xs)
  case Nil
  then show ?case by simp
next
  case (Cons x xs)
  then show ?case
    by (auto simp: filter_empty_conv) (metis imageI)
qed

lemma ssn_search_at_most_one:
  assumes "distinct (map ssn (employees (db w)))" and "searchType st = ''ssn''"
  shows "length (results (fst (handleSearch st w))) \<le> max 1 (length (results st))"
proof (cases "trim (searchTerm st) = [] \<or> next_request_fails (db w)")
  case True
  then show ?thesis
    by (auto simp: handleSearch_def select_employees_fault)
next
  case False
  then show ?thesis
    using filter_eq_distinct [OF assms(1), of "searchTerm st"] assms(2)
    by (simp add: handleSearch_def select_employees_ok search_filter_def apply_filter_def)
qed

lemma like_match_percent: "like_match ''%'' s"
  by (induction s) simp_all

lemma like_match_plain:
  "plain p \<Longrightarrow> like_match (p @ q) s = (take (length p) s = p \<and> like_match q (drop (length p) s))"
proof (induction p arbitrary: s)
  case Nil
  then show ?case by simp
next
  case (Cons c p)
  then have p: "plain p" and c: "c \<noteq> CHR ''%''" "c \<noteq> CHR ''_''" "c \<noteq> CHR 0x5C"
    by (simp_all add: plain_def)
  show ?case
  proof (cases s)
    case Nil
    then show ?thesis using c by simp
  next
    case (Cons d s')
    then show ?thesis using c Cons.IH [OF p, of s'] by auto
  qed
qed

lemma like_match_any:
  "like_match (CHR ''%'' # q) s = (\<exists>n \<le> length s. like_match q (drop n s))"
proof (induction s)
  case Nil
  then show ?case by (cases q) auto
next
  case (Cons c s)
  have "(\<exists>n \<le> length (c # s). like_match q (drop n (c # s)))
      = (like_match q (c # s) \<or> (\<exists>n \<le> length s. like_match q (drop n s)))"
    (is "?L = ?R")
  proof
    assume ?L
    then obtain n where n: "n \<le> length (c # s)" "like_match q (drop n (c # s))" by blast
    then show ?R by (cases n) auto
  next
    assume ?R
    then show ?L
    proof
      assume "like_match q (c # s)"
      then have "like_match q (drop 0 (c # s))" by simp
      then show ?L by blast
    next
      assume "\<exists>n \<le> length s. like_match q (drop n s)"
      then obtain n where "n \<le> length s" "like_match q (drop n s)" by blast
      then have "Suc n \<le> length (c # s)" "like_match q (drop (Suc n) (c # s))" by simp_all
      then show ?L by blast
    qed
  qed
  then show ?case using Cons.IH by simp
qed

lemma string_includes_any:
  "string_includes s t = (\<exists>n \<le> length s. take (length t) (drop n s) = t)"
proof (induction s)
  case Nil
  then show ?case by auto
next
  case (Cons c s)
  have "(\<exists>n \<le> length (c # s). take (length t) (drop n (c # s)) = t)
      = (take (length t) (c # s) = t \<or> (\<exists>n \<le> length s. take (length t) (drop n s) = t))"
    (is "?L = ?R")
  proof
    assume ?L
    then obtain n where n: "n \<le> length (c # s)" "take (length t) (drop n (c # s)) = t" by blast
    then show ?R by (cases n) auto
  next
    assume ?R
    then show ?L
    proof
      assume "take (length t) (c # s) = t"
      then have "take (length t) (drop 0 (c # s)) = t" by simp
      then show ?L by blast
    next
      assume "\<exists>n \<le> length s. take (length t) (drop n s) = t"
      then obtain n where "n \<le> length s" "take (length t) (drop n s) = t" by blast
      then have "Suc n \<le> length (c # s)" "take (length t) (drop (Suc n) (c # s)) = t" by simp_all
      then show ?L by blast
    qed
  qed
  then show ?case using Cons.IH by simp
qed

lemma like_match_substring:
  assumes "plain t"
  shows "like_match (''%'' @ t @ ''%'') s = string_includes s t"
proof -
  have "like_match (t @ ''%'') u = (take (length t) u = t)" for u
    using like_match_plain [OF assms, of "''%''" u] by (simp add: like_match_percent)
  then show ?thesis
    by (simp add: like_match_any string_includes_any)
qed

lemma of_char_to_lower:
  "(of_char (to_lower c) :: nat) =
     (if 65 \<le> (of_char c :: nat) \<and> (of_char c :: nat) \<le> 90 then of_char c + 32 else of_char c)"
  by (simp add: to_lower_def)

lemma to_lower_special:
  "to_lower c = CHR ''%'' \<longleftrightarrow> c = CHR ''%''"
  "to_lower c = CHR ''_'' \<longleftrightarrow> c = CHR ''_''"
  "to_lower c = CHR 0x5C \<longleftrightarrow> c = CHR 0x5C"
proof -
  have eq: "x = y \<longleftrightarrow> (of_char x :: nat) = of_char y" for x y :: char
    by simp
  show "to_lower c = CHR ''%'' \<longleftrightarrow> c = CHR ''%''"
    unfolding eq [of "to_lower c"] eq [of c] of_char_to_lower by auto
  show "to_lower c = CHR ''_'' \<longleftrightarrow> c = CHR ''_''"
    unfolding eq [of "to_lower c"] eq [of c] of_char_to_lower by auto
  show "to_lower c = CHR 0x5C \<longleftrightarrow> c = CHR 0x5C"
    unfolding eq [of "to_lower c"] eq [of c] of_char_to_lower by auto
qed

lemma name_matches_plain:
  assumes "plain t" and "CHR ''*'' \<notin> set t"
  shows "name_matches t r = name_contains t r"
proof -
  have star: "map (\<lambda>c. if c = CHR ''*'' then CHR ''%'' else c) t = t"
    using assms(2) by (induction t) auto
  have "plain (map to_lower t)"
    using assms(1) by (auto simp: plain_def to_lower_special)
  then show ?thesis
    using like_match_substring [of "map to_lower t"]
    by (simp add: name_matches_def name_contains_def ilike_def name_pattern_def star to_lower_def)
qed

lemma name_search_plain_term:
  assumes "trim (searchTerm st) \<noteq> []" and "searchType st = ''name''"
    and "\<not> next_request_fails (db w)" and "plain (searchTerm st)"
    and "CHR ''*'' \<notin> set (searchTerm st)" and "CHR '','' \<notin> set (searchTerm st)"
    and "CHR '')'' \<notin> set (searchTerm st)"
  shows "results (fst (handleSearch st w))
     = map to_client (filter (name_contains (searchTerm st)) (employees (db w)))"
proof -
  have "name_matches (searchTerm st) = name_contains (searchTerm st)"
    using name_matches_plain [OF assms(4,5)] by (simp add: fun_eq_iff)
  then show ?thesis
    using assms(1,2,6,7)
    by (simp add: handleSearch_def search_filter_def select_employees_ok [OF assms(3)]
        apply_filter_def)
qed

lemma no_underscore_in_names: "filter (name_contains ''_'') (employees seed_store) = []"
  by code_simp

text \<open>
  C3. A search by name is to return exactly the employees whose first or last name
  contains the term, case put aside. The code does so for a plain term (see above),
  but not for a term with a character that is special in the pattern built from it:
  the term \<^verbatim>\<open>_\<close> (any one character) finds every employee of the sample data, none of
  whom has an underscore in a name.
\<close>

theorem name_search_wildcard:
  "map first_name (results (fst (handleSearch wildcard_search (world_of seed_store 0))))
     = [''John'', ''Sarah'', ''Michael''] \<and>
   filter (name_contains ''_'') (employees seed_store) = []"
proof -
  have works: "\<not> next_request_fails seed_store"
    by (simp add: next_request_fails_def seed_store_def store_of_def)
  have nonblank: "trim ''_'' \<noteq> []"
    by (rule trim_nonblank) (simp_all add: is_js_whitespace_def)
  have all: "apply_filter (NameIlike ''_'') (employees seed_store) = Inr [john, sarah, michael]"
    by (simp add: apply_filter_def seed_store_def store_of_def sample_rows name_matches_def
        ilike_def name_pattern_def to_lower_def)
  have found: "map first_name (results (fst (handleSearch wildcard_search (world_of seed_store 0))))
      = [''John'', ''Sarah'', ''Michael'']"
    using nonblank
    by (simp add: handleSearch_def wildcard_search_def world_of_def search_filter_def
        select_employees_ok [OF works] all)
      (simp_all add: to_client_def sample_rows)
  show ?thesis using found no_underscore_in_names by simp
qed

subsection \<open>The month of a report\<close>

lemma bounds_utc_plus_1: "month_bounds 60 (2024, Suc 0) = Some (1704067200000, 1706655600000)"
  by code_simp

lemma bounds_utc_minus_5: "month_bounds (- 300) (2024, Suc 0) = Some (1704067200000, 1703998800000)"
  by code_simp

lemma date_of_end_utc_plus_1: "date_of_time_value 1706655600000 = Some (2024, 1, 30)"
  by code_simp

lemma date_of_end_utc_minus_5: "date_of_time_value 1703998800000 = Some (2023, 12, 31)"
  by code_simp

lemma january_periods:
  "in_period (2024, 1, 1) (2024, 1, 31) january_first_half"
  "in_period (2024, 1, 1) (2024, 1, 31) january_second_half"
  "in_period (2024, 1, 1) (2024, 1, 30) january_first_half"
  "\<not> in_period (2024, 1, 1) (2024, 1, 30) january_second_half"
  "\<not> in_period (2024, 1, 1) (2023, 12, 31) january_first_half"
  "\<not> in_period (2024, 1, 1) (2023, 12, 31) january_second_half"
  by code_simp+

lemma owner_of_january:
  "join_owner JobTitleColumn [john, sarah, michael] january_first_half
     = [\<lparr>item_gross_pay = Fin (3171673231715205 / 1099511627776), item_key = ''Software Engineer''\<rparr>]"
  "join_owner JobTitleColumn [john, sarah, michael] january_second_half
     = [\<lparr>item_gross_pay = Fin (3171673231715205 / 1099511627776), item_key = ''Software Engineer''\<rparr>]"
  by (simp_all add: join_owner_def sample_rows january_first_half_def january_second_half_def
      statement_def column_of_def fl_eval)

text \<open>
  C4. The report of a month is to include exactly the statements that start on or after
  its first day and end on or before its last day; both half-month statements of
  January 2024 lie within the month. The code includes both only when the browser is
  on UTC. One hour east of UTC the upper bound of the query is 30 January, and the
  statement that ends on 31 January is left out; five hours west of UTC the upper bound
  is 31 December 2023, and no statement is included.
\<close>

theorem january_report_time_zones:
  "in_period (2024, 1, 1) (2024, 1, 31) january_first_half \<and>
   in_period (2024, 1, 1) (2024, 1, 31) january_second_half \<and>
   map employee_count (payByJobTitle (fst (fetchPayByJobTitle january_report (world_of seed_store 0)))) = [2] \<and>
   map employee_count (payByJobTitle (fst (fetchPayByJobTitle january_report (world_of seed_store 60)))) = [1] \<and>
   payByJobTitle (fst (fetchPayByJobTitle january_report (world_of seed_store (- 300)))) = [] \<and>
   requests (db (snd (fetchPayByJobTitle january_report (world_of seed_store 60))))
     = [SelectPay JobTitleColumn 1704067200000 1706655600000] \<and>
   requests (db (snd (fetchPayByJobTitle january_report (world_of seed_store (- 300)))))
     = [SelectPay JobTitleColumn 1704067200000 1703998800000] \<and>
   date_of_time_value 1706655600000 = Some (2024, 1, 30) \<and>
   date_of_time_value 1703998800000 = Some (2023, 12, 31)"
proof -
  have works: "\<not> next_request_fails seed_store"
    by (simp add: next_request_fails_def seed_store_def store_of_def)
  have tables: "employees seed_store = [john, sarah, michael]"
    "pay_statements seed_store = [january_first_half, january_second_half]"
    "requests seed_store = []"
    by (simp_all add: seed_store_def store_of_def)
  have utc: "fetchPayByJobTitle january_report (world_of seed_store 0) =
      (january_report\<lparr>payByJobTitle :=
          [\<lparr>group_key = ''Software Engineer'', total_pay = Fin (3171673231715205 / 549755813888),
            employee_count = 2\<rparr>], rep_loading := False\<rparr>,
       (world_of seed_store 0)\<lparr>db := seed_store\<lparr>faults := tl (faults seed_store),
          requests := [SelectPay JobTitleColumn 1704067200000 1706659200000]\<rparr>\<rparr>)"
    by (simp add: fetchPayByJobTitle_def fetch_pay_def world_of_def january_report_def
        january_bounds_utc select_pay_ok [OF works] date_of_january_first date_of_january_last
        tables january_periods owner_of_january aggregate_eval fl_eval)
  have east: "fetchPayByJobTitle january_report (world_of seed_store 60) =
      (january_report\<lparr>payByJobTitle :=
          [\<lparr>group_key = ''Software Engineer'', total_pay = Fin (3171673231715205 / 1099511627776),
            employee_count = 1\<rparr>], rep_loading := False\<rparr>,
       (world_of seed_store 60)\<lparr>db := seed_store\<lparr>faults := tl (faults seed_store),
          requests := [SelectPay JobTitleColumn 1704067200000 1706655600000]\<rparr>\<rparr>)"
    by (simp add: fetchPayByJobTitle_def fetch_pay_def world_of_def january_report_def
        bounds_utc_plus_1 select_pay_ok [OF works] date_of_january_first date_of_end_utc_plus_1
        tables january_periods owner_of_january aggregate_eval fl_eval)
  have west: "fetchPayByJobTitle january_report (world_of seed_store (- 300)) =
      (january_report\<lparr>payByJobTitle := [], rep_loading := False\<rparr>,
       (world_of seed_store (- 300))\<lparr>db := seed_store\<lparr>faults := tl (faults seed_store),
          requests := [SelectPay JobTitleColumn 1704067200000 1703998800000]\<rparr>\<rparr>)"
    by (simp add: fetchPayByJobTitle_def fetch_pay_def world_of_def january_report_def
        bounds_utc_minus_5 select_pay_ok [OF works] date_of_january_first date_of_end_utc_minus_5
        tables january_periods aggregate_Nil)
  show ?thesis
    by (simp add: utc east west january_periods date_of_end_utc_plus_1 date_of_end_utc_minus_5)
qed

end
